theory Spec2Isabelle
  imports Main
begin

section \<open>Python values decoded from JSON\<close>

text \<open>
  The tracking server (\<^verbatim>\<open>server.py\<close>) receives a request body, decodes it with
  \<^verbatim>\<open>json.loads\<close> and works on the decoded Python value with duck typing. The value
  type below has one constructor per Python type that \<^verbatim>\<open>json.loads\<close> can return:
  \<^verbatim>\<open>None\<close>, \<^verbatim>\<open>bool\<close>, \<^verbatim>\<open>int\<close>, \<^verbatim>\<open>float\<close>,
  \<^verbatim>\<open>str\<close>, \<^verbatim>\<open>list\<close> and \<^verbatim>\<open>dict\<close>.

  \<^item> A \<^verbatim>\<open>dict\<close> is the list of its items in insertion order (the order matters for
    rendering); lookups take the first item with the key.
  \<^item> A \<^verbatim>\<open>float\<close> is carried as its \<^verbatim>\<open>repr\<close> text (\<open>''1.5''\<close>, \<open>''nan''\<close>):
    the program only prints floats and tests them for zero.
  \<^item> A \<^verbatim>\<open>str\<close> is a \<open>string\<close> whose characters are read as the code points
    U+0000 to U+00FF; text beyond Latin-1 is outside this model.
\<close>

datatype json =
    JNull
  | JBool bool
  | JInt int
  | JFloat string
  | JStr string
  | JArr "json list"
  | JObj "(string \<times> json) list"

datatype py_exception =
    TypeError
  | ValueError
  | AttributeError
  | KeyError
  | IndexError
  | UnicodeDecodeError
  | JSONDecodeError
  | OSError

subsection \<open>Duck-typed operations the handler uses\<close>

text \<open>Truth value of an object, as \<^verbatim>\<open>if events\<close> and \<^verbatim>\<open>x or y\<close> test it.\<close>

fun truthy :: "json \<Rightarrow> bool" where
  "truthy JNull = False"
| "truthy (JBool b) = b"
| "truthy (JInt i) = (i \<noteq> 0)"
| "truthy (JFloat r) = (r \<noteq> ''0.0'' \<and> r \<noteq> ''-0.0'')"
| "truthy (JStr s) = (s \<noteq> [])"
| "truthy (JArr xs) = (xs \<noteq> [])"
| "truthy (JObj kvs) = (kvs \<noteq> [])"

text \<open>\<^verbatim>\<open>needle in haystack\<close> on two strings: substring search.\<close>

primrec contains_str :: "string \<Rightarrow> string \<Rightarrow> bool" where
  "contains_str needle [] = (needle = [])"
| "contains_str needle (c # cs) =
     (take (length needle) (c # cs) = needle \<or> contains_str needle cs)"

text \<open>
  \<^verbatim>\<open>'k' in data\<close>: key membership on a dict, element equality on a list, substring on a
  string; the other types are not iterable and raise \<^verbatim>\<open>TypeError\<close>.
\<close>

fun py_in :: "string \<Rightarrow> json \<Rightarrow> py_exception + bool" where
  "py_in k (JObj kvs) = Inr (k \<in> fst ` set kvs)"
| "py_in k (JArr xs) = Inr (JStr k \<in> set xs)"
| "py_in k (JStr s) = Inr (contains_str k s)"
| "py_in k v = Inl TypeError"

text \<open>\<^verbatim>\<open>dict.get(k, d)\<close> on the items of a dict: the value under \<open>k\<close>, or \<open>d\<close>.\<close>

definition dict_get :: "(string \<times> json) list \<Rightarrow> string \<Rightarrow> json \<Rightarrow> json" where
  "dict_get kvs k d = (case map_of kvs k of Some v \<Rightarrow> v | None \<Rightarrow> d)"

text \<open>\<^verbatim>\<open>data.get(k, d)\<close> on any object: only a dict has the method.\<close>

fun py_get :: "json \<Rightarrow> string \<Rightarrow> json \<Rightarrow> py_exception + json" where
  "py_get (JObj kvs) k d = Inr (dict_get kvs k d)"
| "py_get v k d = Inl AttributeError"

text \<open>\<^verbatim>\<open>len(events)\<close>.\<close>

fun py_len :: "json \<Rightarrow> py_exception + nat" where
  "py_len (JArr xs) = Inr (length xs)"
| "py_len (JStr s) = Inr (length s)"
| "py_len (JObj kvs) = Inr (length kvs)"
| "py_len v = Inl TypeError"

text \<open>
  The elements a \<^verbatim>\<open>for\<close> loop visits: the elements of a list, the characters of a
  string (each a string of length one), the keys of a dict.
\<close>

fun py_iter :: "json \<Rightarrow> py_exception + json list" where
  "py_iter (JArr xs) = Inr xs"
| "py_iter (JStr s) = Inr (map (\<lambda>c. JStr [c]) s)"
| "py_iter (JObj kvs) = Inr (map (\<lambda>kv. JStr (fst kv)) kvs)"
| "py_iter v = Inl TypeError"

text \<open>
  \<^verbatim>\<open>events[0]\<close>. On a dict the subscript is a key lookup, and no key of a decoded
  JSON object is the integer 0.
\<close>

fun py_item0 :: "json \<Rightarrow> py_exception + json" where
  "py_item0 (JArr []) = Inl IndexError"
| "py_item0 (JArr (x # xs)) = Inr x"
| "py_item0 (JStr []) = Inl IndexError"
| "py_item0 (JStr (c # cs)) = Inr (JStr [c])"
| "py_item0 (JObj kvs) = Inl KeyError"
| "py_item0 v = Inl TypeError"

subsection \<open>Text of a value: \<^verbatim>\<open>str\<close>, \<^verbatim>\<open>repr\<close> and \<^verbatim>\<open>json.dumps\<close>\<close>

definition dq :: char where
  "dq = CHR 0x22"

definition sq :: char where
  "sq = CHR 0x27"

definition bs :: char where
  "bs = CHR 0x5C"

definition nl :: char where
  "nl = CHR 0x0A"

fun show_nat :: "nat \<Rightarrow> string" where
  "show_nat n =
     (if n < 10 then [''0123456789'' ! n]
      else show_nat (n div 10) @ [''0123456789'' ! (n mod 10)])"

declare show_nat.simps [simp del]

definition show_int :: "int \<Rightarrow> string" where
  "show_int i = (if i < 0 then CHR ''-'' # show_nat (nat (- i)) else show_nat (nat i))"

definition hex2 :: "nat \<Rightarrow> string" where
  "hex2 n = [''0123456789abcdef'' ! (n div 16 mod 16), ''0123456789abcdef'' ! (n mod 16)]"

text \<open>\<^verbatim>\<open>str.isprintable\<close> on the code points below U+0100.\<close>

definition printable :: "char \<Rightarrow> bool" where
  "printable c =
     (let n = (of_char c :: nat)
      in (32 \<le> n \<and> n < 127) \<or> (161 \<le> n \<and> n \<noteq> 173))"

text \<open>One character inside \<^verbatim>\<open>repr\<close> of a string quoted with \<open>q\<close>.\<close>

definition repr_char :: "char \<Rightarrow> char \<Rightarrow> string" where
  "repr_char q c =
     (if c = q \<or> c = bs then [bs, c]
      else if c = CHR 0x09 then [bs, CHR ''t'']
      else if c = CHR 0x0A then [bs, CHR ''n'']
      else if c = CHR 0x0D then [bs, CHR ''r'']
      else if printable c then [c]
      else [bs, CHR ''x''] @ hex2 (of_char c))"

text \<open>
  \<^verbatim>\<open>repr\<close> of a string: single quotes, unless the text has a single quote and no
  double quote.
\<close>

definition repr_str :: "string \<Rightarrow> string" where
  "repr_str s =
     (let q = (if sq \<in> set s \<and> dq \<notin> set s then dq else sq)
      in q # concat (map (repr_char q) s) @ [q])"

text \<open>\<^verbatim>\<open>', '.join(parts)\<close> and \<^verbatim>\<open>'\n'.join(parts)\<close>.\<close>

fun join :: "string \<Rightarrow> string list \<Rightarrow> string" where
  "join sep [] = []"
| "join sep [p] = p"
| "join sep (p # q # ps) = p @ sep @ join sep (q # ps)"

fun py_repr :: "json \<Rightarrow> string" where
  "py_repr JNull = ''None''"
| "py_repr (JBool b) = (if b then ''True'' else ''False'')"
| "py_repr (JInt i) = show_int i"
| "py_repr (JFloat r) = r"
| "py_repr (JStr s) = repr_str s"
| "py_repr (JArr xs) = ''['' @ join '', '' (map py_repr xs) @ '']''"
| "py_repr (JObj kvs) =
     ''{'' @ join '', '' (map (\<lambda>kv. repr_str (fst kv) @ '': '' @ py_repr (snd kv)) kvs) @ ''}''"

text \<open>
  \<^verbatim>\<open>str(v)\<close>, which is also what an f-string field \<^verbatim>\<open>{v}\<close> inserts: the text itself
  for a string, \<^verbatim>\<open>repr\<close> for every other type.
\<close>

fun py_str :: "json \<Rightarrow> string" where
  "py_str (JStr s) = s"
| "py_str v = py_repr v"

text \<open>One character inside a JSON string literal, with \<^verbatim>\<open>ensure_ascii\<close> (the default).\<close>

definition json_char :: "char \<Rightarrow> string" where
  "json_char c =
     (if c = dq \<or> c = bs then [bs, c]
      else if c = CHR 0x0A then [bs, CHR ''n'']
      else if c = CHR 0x0D then [bs, CHR ''r'']
      else if c = CHR 0x09 then [bs, CHR ''t'']
      else if c = CHR 0x08 then [bs, CHR ''b'']
      else if c = CHR 0x0C then [bs, CHR ''f'']
      else if 32 \<le> (of_char c :: nat) \<and> (of_char c :: nat) \<le> 126 then [c]
      else [bs, CHR ''u'', CHR ''0'', CHR ''0''] @ hex2 (of_char c))"

definition json_string :: "string \<Rightarrow> string" where
  "json_string s = dq # concat (map json_char s) @ [dq]"

definition json_float :: "string \<Rightarrow> string" where
  "json_float r =
     (if r = ''nan'' then ''NaN''
      else if r = ''inf'' then ''Infinity''
      else if r = ''-inf'' then ''-Infinity''
      else r)"

text \<open>
  \<^verbatim>\<open>json.dumps(v, indent=k)\<close> at nesting depth \<open>lvl\<close>: every item of a non-empty
  list or dict goes on a line of its own, indented by \<open>k\<close> spaces per level; the items
  are separated by a comma, key and value by a colon and a space.
\<close>

fun json_encode :: "nat \<Rightarrow> nat \<Rightarrow> json \<Rightarrow> string" where
  "json_encode k lvl JNull = ''null''"
| "json_encode k lvl (JBool b) = (if b then ''true'' else ''false'')"
| "json_encode k lvl (JInt i) = show_int i"
| "json_encode k lvl (JFloat r) = json_float r"
| "json_encode k lvl (JStr s) = json_string s"
| "json_encode k lvl (JArr xs) =
     (if xs = [] then ''[]''
      else ''['' @ nl # replicate (k * Suc lvl) CHR '' ''
        @ join (CHR '','' # nl # replicate (k * Suc lvl) CHR '' '')
            (map (json_encode k (Suc lvl)) xs)
        @ nl # replicate (k * lvl) CHR '' '' @ '']'')"
| "json_encode k lvl (JObj kvs) =
     (if kvs = [] then ''{}''
      else ''{'' @ nl # replicate (k * Suc lvl) CHR '' ''
        @ join (CHR '','' # nl # replicate (k * Suc lvl) CHR '' '')
            (map (\<lambda>kv. json_string (fst kv) @ '': '' @ json_encode k (Suc lvl) (snd kv)) kvs)
        @ nl # replicate (k * lvl) CHR '' '' @ ''}'')"

definition json_dumps_indent :: "nat \<Rightarrow> json \<Rightarrow> string" where
  "json_dumps_indent k v = json_encode k 0 v"

section \<open>The request handler\<close>

text \<open>A failing step ends the computation with its exception; otherwise the next step runs.\<close>

definition and_then :: "py_exception + 'a \<Rightarrow> ('a \<Rightarrow> py_exception + 'b) \<Rightarrow> py_exception + 'b" where
  "and_then m f = (case m of Inl e \<Rightarrow> Inl e | Inr x \<Rightarrow> f x)"

subsection \<open>Normalisation of the payload (\<^verbatim>\<open>do_POST\<close>, lines 25 to 38)\<close>

text \<open>
  \<^verbatim>\<open>events[0].get(k) if events else 'unknown'\<close>: the field of the first event, \<^verbatim>\<open>None\<close>
  when the first event has no such field.
\<close>

definition first_field :: "json \<Rightarrow> string \<Rightarrow> py_exception + json" where
  "first_field events k =
     (if truthy events then and_then (py_item0 events) (\<lambda>first. py_get first k JNull)
      else Inr (JStr ''unknown''))"

text \<open>The result is the triple \<open>(events, session_id, user_id)\<close>.\<close>

definition normalize :: "json \<Rightarrow> py_exception + json \<times> json \<times> json" where
  "normalize data =
     and_then (py_in ''events'' data) (\<lambda>has_events.
       if has_events then
         and_then (py_get data ''events'' (JArr [])) (\<lambda>events.
         and_then (first_field events ''sessionId'') (\<lambda>session_id.
         and_then (first_field events ''userId'') (\<lambda>user_id.
         Inr (events, session_id, user_id))))
       else
         and_then (py_in ''type'' data) (\<lambda>has_type.
           if has_type then Inr (JArr [data], JStr ''test_session'', JStr ''test_user'')
           else
             and_then (py_get data ''sessionId'' (JStr ''unknown'')) (\<lambda>session_id.
             and_then (py_get data ''userId'' (JStr ''unknown'')) (\<lambda>user_id.
             Inr (JArr [data], session_id, user_id)))))"

subsection \<open>\<^verbatim>\<open>format_log_entry\<close>\<close>

text \<open>\<^verbatim>\<open>event.get('eventType') or event.get('type', 'unknown')\<close>.\<close>

definition event_type_of :: "json \<Rightarrow> py_exception + json" where
  "event_type_of event =
     and_then (py_get event ''eventType'' JNull) (\<lambda>t.
       if truthy t then Inr t else py_get event ''type'' (JStr ''unknown''))"

text \<open>\<^verbatim>\<open>event.get('data', event.get('message', 'no data'))\<close>.\<close>

definition event_data_of :: "json \<Rightarrow> py_exception + json" where
  "event_data_of event =
     and_then (py_get event ''message'' (JStr ''no data'')) (\<lambda>message.
       py_get event ''data'' message)"

text \<open>The text after \<^verbatim>\<open>Data:\<close> (lines 133 to 136).\<close>

definition render_data :: "json \<Rightarrow> string" where
  "render_data event_data =
     (case event_data of
        JObj kvs \<Rightarrow> json_dumps_indent 6 event_data
      | _ \<Rightarrow> py_str event_data)"

text \<open>One pass of the loop over the events (lines 122 to 137): the six lines it appends.\<close>

definition format_event :: "nat \<Rightarrow> json \<Rightarrow> py_exception + string list" where
  "format_event i event =
     and_then (event_type_of event) (\<lambda>event_type.
     and_then (event_data_of event) (\<lambda>event_data.
     and_then (py_get event ''timestamp'' (JStr ''unknown'')) (\<lambda>event_timestamp.
     and_then (py_get event ''url'' (JStr ''unknown'')) (\<lambda>event_url.
     Inr [''EVENT_'' @ show_nat i @ '':'',
          ''  Type: '' @ py_str event_type,
          ''  Timestamp: '' @ py_str event_timestamp,
          ''  URL: '' @ py_str event_url,
          ''  Data: '' @ render_data event_data,
          []]))))"

fun format_events :: "nat \<Rightarrow> json list \<Rightarrow> py_exception + string list" where
  "format_events i [] = Inr []"
| "format_events i (event # rest) =
     and_then (format_event i event) (\<lambda>ls.
     and_then (format_events (Suc i) rest) (\<lambda>ls'.
     Inr (ls @ ls')))"

text \<open>The list \<^verbatim>\<open>log_lines\<close> when the function reaches its \<^verbatim>\<open>return\<close>.\<close>

definition log_lines :: "json \<Rightarrow> py_exception + string list" where
  "log_lines log_entry =
     and_then (py_get log_entry ''timestamp'' (JStr ''Unknown'')) (\<lambda>timestamp.
     and_then (py_get log_entry ''sessionId'' (JStr ''Unknown'')) (\<lambda>session_id.
     and_then (py_get log_entry ''userId'' (JStr ''Unknown'')) (\<lambda>user_id.
     and_then (py_get log_entry ''events'' (JArr [])) (\<lambda>events.
     and_then (py_len events) (\<lambda>n.
     and_then (py_iter events) (\<lambda>items.
     and_then (format_events 1 items) (\<lambda>body.
     Inr ([replicate 80 CHR ''='',
           ''BATCH_TIMESTAMP: '' @ py_str timestamp,
           ''SESSION_ID: '' @ py_str session_id,
           ''USER_ID: '' @ py_str user_id,
           ''TOTAL_EVENTS: '' @ show_nat n,
           replicate 40 CHR ''-'']
          @ body
          @ [replicate 80 CHR ''='', []]))))))))"

definition format_log_entry :: "json \<Rightarrow> py_exception + string" where
  "format_log_entry log_entry =
     and_then (log_lines log_entry) (\<lambda>ls. Inr (join [nl] ls))"

subsection \<open>\<^verbatim>\<open>save_tracking_data\<close>\<close>

text \<open>
  The state is the text of \<^verbatim>\<open>tracking_events.txt\<close> (empty when the file does not exist
  yet). \<open>disk_ok\<close> says whether opening the file and appending to it succeed; when they
  raise \<^verbatim>\<open>OSError\<close> the file is taken to stay as it was. Every exception is caught
  and printed, so the function always returns.
\<close>

definition save_tracking_data :: "bool \<Rightarrow> json \<Rightarrow> string \<Rightarrow> string" where
  "save_tracking_data ok log_entry file =
     (case format_log_entry log_entry of
        Inl e \<Rightarrow> file
      | Inr log_text \<Rightarrow> if ok then file @ log_text @ [nl] else file)"

subsection \<open>The console report (\<^verbatim>\<open>do_POST\<close>, lines 54 to 60)\<close>

text \<open>
  The lines printed to the console matter to the client only through the exceptions
  that computing them can raise. The banner of line 53 is left out, and \<^verbatim>\<open>print\<close>
  itself is taken to succeed.
\<close>

definition console_event :: "json \<Rightarrow> py_exception + string" where
  "console_event event =
     and_then (event_type_of event) (\<lambda>event_type.
     and_then (event_data_of event) (\<lambda>event_data.
     Inr (''  - '' @ py_str event_type @ '': '' @ py_str event_data)))"

fun console_events :: "json list \<Rightarrow> py_exception + string list" where
  "console_events [] = Inr []"
| "console_events (event # rest) =
     and_then (console_event event) (\<lambda>l.
     and_then (console_events rest) (\<lambda>ls.
     Inr (l # ls)))"

definition console_report :: "json \<Rightarrow> json \<Rightarrow> json \<Rightarrow> py_exception + string list" where
  "console_report session_id user_id events =
     and_then (py_len events) (\<lambda>n.
     and_then (py_iter events) (\<lambda>items.
     and_then (console_events items) (\<lambda>ls.
     Inr ([''Session ID: '' @ py_str session_id,
           ''User ID: '' @ py_str user_id,
           ''Number of events: '' @ show_nat n] @ ls))))"

subsection \<open>\<^verbatim>\<open>do_POST\<close>\<close>

text \<open>
  What the handler sends: \<open>Response\<close> is \<^verbatim>\<open>send_response\<close> with the headers added by
  \<^verbatim>\<open>send_header\<close> and the body written to \<^verbatim>\<open>wfile\<close>; \<open>Error\<close> is
  \<^verbatim>\<open>send_error(code, message)\<close>, whose page the library builds.
\<close>

datatype reply =
    Response nat "(string \<times> string) list" string
  | Error nat string

text \<open>The handler either sends a reply or lets an exception leave \<^verbatim>\<open>do_POST\<close>.\<close>

datatype outcome =
    Replied reply
  | Raised py_exception

text \<open>
  Library calls on the raw request are taken by their outcome; \<^verbatim>\<open>rfile.read\<close> is
  taken to return the body and \<^verbatim>\<open>wfile.write\<close> to send the reply.
  \<^item> \<^verbatim>\<open>int(self.headers['Content-Length'])\<close>: the header lookup gives \<^verbatim>\<open>None\<close> for an
    absent header and \<^verbatim>\<open>int(None)\<close> raises \<^verbatim>\<open>TypeError\<close>; a text that is not an
    integer literal raises \<^verbatim>\<open>ValueError\<close>.
  \<^item> \<^verbatim>\<open>json.loads(post_data.decode('utf-8'))\<close> on the bytes read: they are not UTF-8
    (\<^verbatim>\<open>UnicodeDecodeError\<close>, for example the one byte 0xFF), or they are text that is
    not JSON (\<^verbatim>\<open>JSONDecodeError\<close>, for example \<^verbatim>\<open>not json\<close>), or they decode to
    a value.
\<close>

datatype length_header =
    NoHeader
  | NotInteger
  | Length int

datatype decoded =
    NotUtf8
  | NotJson
  | Json json

record request =
  path :: string
  content_length :: length_header
  body :: decoded

text \<open>
  \<open>now\<close> is the text of \<^verbatim>\<open>datetime.datetime.now().isoformat()\<close> when the request is
  handled.
\<close>

record env =
  now :: string
  disk_ok :: bool

text \<open>
  The dict \<^verbatim>\<open>log_entry\<close> built at lines 42 to 47. A batch, in the words of the
  specification, is such an entry whose events are a list of objects:
  \<open>log_entry_of t s u (JArr (map JObj ds))\<close>.
\<close>

definition log_entry_of :: "string \<Rightarrow> json \<Rightarrow> json \<Rightarrow> json \<Rightarrow> json" where
  "log_entry_of timestamp session_id user_id events =
     JObj [(''timestamp'', JStr timestamp),
           (''sessionId'', session_id),
           (''userId'', user_id),
           (''events'', events)]"

definition success_body :: "nat \<Rightarrow> string" where
  "success_body n =
     ''{'' @ json_string ''status'' @ '': '' @ json_string ''success'' @ '', ''
       @ json_string ''message'' @ '': ''
       @ json_string (''Successfully logged '' @ show_nat n @ '' events'') @ ''}''"

text \<open>
  The body of the \<^verbatim>\<open>try\<close> block (lines 22 to 69): the exception it raises or the reply
  it sends, and the log file afterwards.
\<close>

definition process :: "env \<Rightarrow> decoded \<Rightarrow> string \<Rightarrow> (py_exception + reply) \<times> string" where
  "process e b file =
     (case b of
        NotUtf8 \<Rightarrow> (Inl UnicodeDecodeError, file)
      | NotJson \<Rightarrow> (Inl JSONDecodeError, file)
      | Json data \<Rightarrow>
          (case normalize data of
             Inl exn \<Rightarrow> (Inl exn, file)
           | Inr (events, session_id, user_id) \<Rightarrow>
               (let log_entry = log_entry_of (now e) session_id user_id events;
                    file' = save_tracking_data (disk_ok e) log_entry file
                in (and_then (console_report session_id user_id events) (\<lambda>printed.
                    and_then (py_len events) (\<lambda>n.
                    Inr (Response 200
                          [(''Content-type'', ''application/json''),
                           (''Access-Control-Allow-Origin'', ''*'')]
                          (success_body n)))),
                    file'))))"

definition do_POST :: "env \<Rightarrow> request \<Rightarrow> string \<Rightarrow> outcome \<times> string" where
  "do_POST e req file =
     (if path req \<in> set [''/api/analytics/events'', ''/analytics''] then
        (case content_length req of
           NoHeader \<Rightarrow> (Raised TypeError, file)
         | NotInteger \<Rightarrow> (Raised ValueError, file)
         | Length n \<Rightarrow>
             (case process e (body req) file of
                (Inl exn, file') \<Rightarrow>
                  (if exn = JSONDecodeError then (Replied (Error 400 ''Invalid JSON''), file')
                   else (Replied (Error 500 ''Internal server error''), file'))
              | (Inr r, file') \<Rightarrow> (Replied r, file')))
      else (Replied (Error 404 ''Endpoint not found''), file))"

section \<open>Reading a log block\<close>

text \<open>
  The lines of a text, as \<^verbatim>\<open>text.split('\n')\<close> gives them, and those among them that
  begin like the header of an event section.
\<close>

fun split_lines :: "string \<Rightarrow> string list" where
  "split_lines [] = [[]]"
| "split_lines (c # cs) =
     (if c = nl then [] # split_lines cs
      else (case split_lines cs of [] \<Rightarrow> [[c]] | l # ls \<Rightarrow> (c # l) # ls))"

definition header_lines :: "string \<Rightarrow> string list" where
  "header_lines text = filter (\<lambda>l. take 6 l = ''EVENT_'') (split_lines text)"

text \<open>
  An entry of the line list is quiet when no line after its first begins like a header,
  that is, when the field value written into it has no line break followed by
  \<^verbatim>\<open>EVENT_\<close>.
\<close>

definition quiet :: "string \<Rightarrow> bool" where
  "quiet l = (\<forall>x\<in>set (tl (split_lines l)). take 6 x \<noteq> ''EVENT_'')"

section \<open>Facts about the formatter\<close>

lemma and_then_Inl [simp]: "and_then (Inl e) f = Inl e"
  by (simp add: and_then_def)

lemma and_then_Inr [simp]: "and_then (Inr x) f = f x"
  by (simp add: and_then_def)

lemma and_then_eq_Inr: "and_then m f = Inr y \<longleftrightarrow> (\<exists>x. m = Inr x \<and> f x = Inr y)"
  by (cases m) simp_all

lemma format_event_dict:
  "format_event i (JObj d) =
     Inr [''EVENT_'' @ show_nat i @ '':'',
          ''  Type: '' @ py_str (if truthy (dict_get d ''eventType'' JNull)
                                 then dict_get d ''eventType'' JNull
                                 else dict_get d ''type'' (JStr ''unknown'')),
          ''  Timestamp: '' @ py_str (dict_get d ''timestamp'' (JStr ''unknown'')),
          ''  URL: '' @ py_str (dict_get d ''url'' (JStr ''unknown'')),
          ''  Data: '' @ render_data (dict_get d ''data'' (dict_get d ''message'' (JStr ''no data''))),
          []]"
  by (simp add: format_event_def event_type_of_def event_data_of_def)

lemma format_events_dicts_total:
  "\<exists>ls. format_events k (map JObj ds) = Inr ls \<and> length ls = 6 * length ds"
proof (induction ds arbitrary: k)
  case Nil
  show ?case by simp
next
  case (Cons d ds)
  from Cons.IH [of "Suc k"] obtain ls where
    "format_events (Suc k) (map JObj ds) = Inr ls" "length ls = 6 * length ds"
    by blast
  then show ?case by (simp add: format_event_dict)
qed

lemma format_events_block:
  "format_events k (map JObj ds) = Inr ls \<Longrightarrow> i < length ds \<Longrightarrow>
   format_event (k + i) (JObj (ds ! i)) = Inr (take 6 (drop (6 * i) ls))"
proof (induction ds arbitrary: k i ls)
  case Nil
  then show ?case by simp
next
  case (Cons d ds)
  from format_events_dicts_total [of "Suc k" ds] obtain ls' where
    ls': "format_events (Suc k) (map JObj ds) = Inr ls'" "length ls' = 6 * length ds"
    by blast
  with Cons.prems(1) obtain b where
    b: "format_event k (JObj d) = Inr b" "ls = b @ ls'" "length b = 6"
    by (auto simp: format_event_dict)
  show ?case
  proof (cases i)
    case 0
    with b show ?thesis by simp
  next
    case (Suc j)
    with Cons.prems(2) have "j < length ds" by simp
    from Cons.IH [OF ls'(1) this]
    have "format_event (Suc k + j) (JObj (ds ! j)) = Inr (take 6 (drop (6 * j) ls'))" .
    with Suc b show ?thesis by simp
  qed
qed

lemma format_events_headers:
  "format_events k (map JObj ds) = Inr ls \<Longrightarrow>
   filter (\<lambda>l. take 6 l = ''EVENT_'') ls
     = map (\<lambda>i. ''EVENT_'' @ show_nat (k + i) @ '':'') [0..<length ds]"
proof (induction ds arbitrary: k ls)
  case Nil
  then show ?case by simp
next
  case (Cons d ds)
  from format_events_dicts_total [of "Suc k" ds] obtain ls' where
    ls': "format_events (Suc k) (map JObj ds) = Inr ls'"
    by blast
  from Cons.IH [OF ls']
  have IH: "filter (\<lambda>l. take 6 l = ''EVENT_'') ls'
     = map (\<lambda>i. ''EVENT_'' @ show_nat (Suc k + i) @ '':'') [0..<length ds]" .
  from Cons.prems ls' obtain b where
    b: "format_event k (JObj d) = Inr b" "ls = b @ ls'"
    by (auto simp: format_event_dict)
  from b(1) have "filter (\<lambda>l. take 6 l = ''EVENT_'') b = [''EVENT_'' @ show_nat k @ '':'']"
    by (auto simp: format_event_dict)
  with b(2) IH show ?case
    by (simp add: map_upt_Suc del: upt_Suc)
qed


lemma log_lines_batch:
  "\<exists>body. format_events 1 (map JObj ds) = Inr body \<and> length body = 6 * length ds \<and>
     log_lines (log_entry_of t s u (JArr (map JObj ds))) =
       Inr ([replicate 80 CHR ''='',
             ''BATCH_TIMESTAMP: '' @ t,
             ''SESSION_ID: '' @ py_str s,
             ''USER_ID: '' @ py_str u,
             ''TOTAL_EVENTS: '' @ show_nat (length ds),
             replicate 40 CHR ''-'']
            @ body @ [replicate 80 CHR ''='', []])"
proof -
  from format_events_dicts_total [of 1 ds] obtain body where
    "format_events 1 (map JObj ds) = Inr body" "length body = 6 * length ds"
    by blast
  then show ?thesis
    by (simp add: log_lines_def log_entry_of_def dict_get_def)
qed

lemma split_lines_nonempty [simp]: "split_lines xs \<noteq> []"
  by (cases xs) (simp_all split: list.splits)

lemma split_lines_break: "split_lines (xs @ nl # ys) = split_lines xs @ split_lines ys"
  by (induction xs) (auto split: list.splits)

lemma join_snoc: "ls \<noteq> [] \<Longrightarrow> join sep (ls @ [l]) = join sep ls @ sep @ l"
  by (induction sep ls rule: join.induct) simp_all

lemma split_lines_join: "ls \<noteq> [] \<Longrightarrow> split_lines (join [nl] ls) = concat (map split_lines ls)"
proof (induction "[nl]" ls rule: join.induct)
  case 1
  then show ?case by simp
next
  case (2 p)
  show ?case by simp
next
  case (3 p q ps)
  then show ?case by (simp add: split_lines_break)
qed

lemma format_events_console:
  "format_events i items = Inr ls \<Longrightarrow> \<exists>out. console_events items = Inr out"
proof (induction items arbitrary: i ls)
  case Nil
  show ?case by simp
next
  case (Cons ev items)
  from Cons.prems obtain b ls' where
    b: "format_event i ev = Inr b" and ls': "format_events (Suc i) items = Inr ls'"
    by (auto simp: and_then_eq_Inr)
  from b obtain ty da where "event_type_of ev = Inr ty" "event_data_of ev = Inr da"
    by (auto simp: format_event_def and_then_eq_Inr)
  then have "\<exists>l. console_event ev = Inr l"
    by (simp add: console_event_def)
  with Cons.IH [OF ls'] show ?case by auto
qed

lemma format_console_report:
  assumes "format_log_entry (log_entry_of t s u events) = Inr text"
  shows "\<exists>k out. py_len events = Inr k \<and> console_report s u events = Inr out"
proof -
  from assms obtain k items body where
    "py_len events = Inr k" "py_iter events = Inr items" "format_events 1 items = Inr body"
    by (auto simp: format_log_entry_def log_lines_def log_entry_of_def dict_get_def and_then_eq_Inr)
  moreover from this(3) obtain out where "console_events items = Inr out"
    using format_events_console by blast
  ultimately show ?thesis by (simp add: console_report_def)
qed

lemma normalize_non_dict:
  assumes "\<forall>kvs. data \<noteq> JObj kvs"
  shows "normalize data = Inl TypeError \<or> normalize data = Inl AttributeError \<or>
         normalize data = Inr (JArr [data], JStr ''test_session'', JStr ''test_user'')"
  using assms by (cases data) (auto simp: normalize_def)

lemma format_single_non_dict:
  assumes "\<forall>kvs. data \<noteq> JObj kvs"
  shows "format_log_entry (log_entry_of t s u (JArr [data])) = Inl AttributeError"
    and "console_report s u (JArr [data]) = Inl AttributeError"
  using assms
  by (cases data; simp add: format_log_entry_def log_lines_def log_entry_of_def dict_get_def
       format_event_def event_type_of_def console_report_def console_event_def)+

lemma split_lines_no_break: "nl \<notin> set xs \<Longrightarrow> split_lines xs = [xs]"
  by (induction xs) auto

lemma hd_split_lines: "hd (split_lines xs) = takeWhile (\<lambda>c. c \<noteq> nl) xs"
  by (induction xs) (auto split: list.splits)

lemma take_takeWhile_eq:
  "\<forall>c\<in>set h. Q c \<Longrightarrow> take (length h) (takeWhile Q xs) = h \<longleftrightarrow> take (length h) xs = h"
proof (induction h arbitrary: xs)
  case Nil
  show ?case by simp
next
  case (Cons a h)
  show ?case
  proof (cases xs)
    case Nil
    then show ?thesis by simp
  next
    case (Cons x xs')
    with Cons.prems Cons.IH [of xs'] show ?thesis by auto
  qed
qed

lemma header_of_first_line:
  "take 6 (hd (split_lines l)) = ''EVENT_'' \<longleftrightarrow> take 6 l = ''EVENT_''"
proof -
  have "length ''EVENT_'' = 6" by simp
  moreover have "\<forall>c\<in>set ''EVENT_''. c \<noteq> nl" by (simp add: nl_def)
  ultimately show ?thesis
    using take_takeWhile_eq [of "''EVENT_''" "\<lambda>c. c \<noteq> nl" l]
    by (simp only: hd_split_lines)
qed

lemma set_show_nat: "set (show_nat n) \<subseteq> set ''0123456789''"
proof (induction n rule: show_nat.induct)
  case (1 n)
  have digit: "''0123456789'' ! k \<in> set ''0123456789''" if "k < 10" for k
    using that nth_mem [of k "''0123456789''"] by simp
  show ?case
  proof (cases "n < 10")
    case True
    with digit [of n] show ?thesis by (subst show_nat.simps) simp
  next
    case False
    with 1 digit [of "n mod 10"] show ?thesis by (subst show_nat.simps) simp
  qed
qed

lemma show_nat_no_break: "nl \<notin> set (show_nat n)"
  using set_show_nat [of n] by (auto simp: nl_def)

lemma header_lines_entry:
  "quiet l \<Longrightarrow> filter (\<lambda>x. take 6 x = ''EVENT_'') (split_lines l)
     = map (\<lambda>x. hd (split_lines x)) (filter (\<lambda>x. take 6 x = ''EVENT_'') [l])"
proof -
  assume q: "quiet l"
  have "split_lines l = hd (split_lines l) # tl (split_lines l)" by simp
  then have "filter (\<lambda>x. take 6 x = ''EVENT_'') (split_lines l)
      = filter (\<lambda>x. take 6 x = ''EVENT_'') [hd (split_lines l)]
        @ filter (\<lambda>x. take 6 x = ''EVENT_'') (tl (split_lines l))"
    by (metis append_Cons append_Nil filter_append)
  moreover from q have "filter (\<lambda>x. take 6 x = ''EVENT_'') (tl (split_lines l)) = []"
    by (simp add: quiet_def filter_empty_conv)
  ultimately show ?thesis
    by (simp add: header_of_first_line)
qed

lemma header_lines_join:
  assumes "ls \<noteq> []" and "\<forall>l\<in>set ls. quiet l"
  shows "header_lines (join [nl] ls)
           = map (\<lambda>x. hd (split_lines x)) (filter (\<lambda>x. take 6 x = ''EVENT_'') ls)"
proof -
  have "concat (map (\<lambda>l. filter (\<lambda>x. take 6 x = ''EVENT_'') (split_lines l)) ks)
          = map (\<lambda>x. hd (split_lines x)) (filter (\<lambda>x. take 6 x = ''EVENT_'') ks)"
    if "\<forall>l\<in>set ks. quiet l" for ks
    using that
  proof (induction ks)
    case Nil
    show ?case by simp
  next
    case (Cons k ks)
    then have "quiet k" by simp
    from header_lines_entry [OF this] Cons show ?case by simp
  qed
  with assms show ?thesis
    by (simp add: header_lines_def split_lines_join filter_concat comp_def)
qed

lemma has_key_iff: "k \<in> fst ` set kvs \<longleftrightarrow> map_of kvs k \<noteq> None"
  by (simp add: map_of_eq_None_iff)

lemma log_lines_event:
  assumes "i < length ds"
  shows "\<exists>ls. log_lines (log_entry_of t s u (JArr (map JObj ds))) = Inr ls \<and>
           take 6 (drop (6 + 6 * i) ls) =
             [''EVENT_'' @ show_nat (Suc i) @ '':'',
              ''  Type: '' @ py_str (if truthy (dict_get (ds ! i) ''eventType'' JNull)
                                     then dict_get (ds ! i) ''eventType'' JNull
                                     else dict_get (ds ! i) ''type'' (JStr ''unknown'')),
              ''  Timestamp: '' @ py_str (dict_get (ds ! i) ''timestamp'' (JStr ''unknown'')),
              ''  URL: '' @ py_str (dict_get (ds ! i) ''url'' (JStr ''unknown'')),
              ''  Data: '' @ render_data
                 (dict_get (ds ! i) ''data'' (dict_get (ds ! i) ''message'' (JStr ''no data''))),
              []]"
proof -
  from log_lines_batch [of ds t s u] obtain body where
    body: "format_events 1 (map JObj ds) = Inr body" "length body = 6 * length ds"
    and ls: "log_lines (log_entry_of t s u (JArr (map JObj ds))) =
       Inr ([replicate 80 CHR ''='', ''BATCH_TIMESTAMP: '' @ t, ''SESSION_ID: '' @ py_str s,
             ''USER_ID: '' @ py_str u, ''TOTAL_EVENTS: '' @ show_nat (length ds),
             replicate 40 CHR ''-''] @ body @ [replicate 80 CHR ''='', []])"
    by blast
  from format_events_block [OF body(1) assms]
  have blk: "format_event (Suc i) (JObj (ds ! i)) = Inr (take 6 (drop (6 * i) body))"
    by simp
  from assms body(2) have len: "6 * i + 6 \<le> length body" by simp
  have "take 6 (drop (6 + 6 * i) (h @ body @ e)) = take 6 (drop (6 * i) body)"
    if "length h = 6" for h e :: "string list"
    using that len by simp
  from this [of "[replicate 80 CHR ''='', ''BATCH_TIMESTAMP: '' @ t, ''SESSION_ID: '' @ py_str s,
            ''USER_ID: '' @ py_str u, ''TOTAL_EVENTS: '' @ show_nat (length ds),
            replicate 40 CHR ''-'']" "[replicate 80 CHR ''='', []]"]
  have "take 6 (drop (6 + 6 * i)
          ([replicate 80 CHR ''='', ''BATCH_TIMESTAMP: '' @ t, ''SESSION_ID: '' @ py_str s,
            ''USER_ID: '' @ py_str u, ''TOTAL_EVENTS: '' @ show_nat (length ds),
            replicate 40 CHR ''-''] @ body @ [replicate 80 CHR ''='', []]))
        = take 6 (drop (6 * i) body)"
    by simp
  with blk ls show ?thesis
    by (simp add: format_event_dict)
qed

lemma nth_of_block:
  "take 6 (drop k ls) = [a0, a1, a2, a3, a4, a5] \<Longrightarrow>
   ls ! k = a0 \<and> ls ! (k + 1) = a1 \<and> ls ! (k + 4) = a4"
proof -
  assume h: "take 6 (drop k ls) = [a0, a1, a2, a3, a4, a5]"
  then have "length (take 6 (drop k ls)) = 6" by simp
  then have len: "k + 6 \<le> length ls" by simp
  have "take 6 (drop k ls) ! j = ls ! (k + j)" if "j < 6" for j
    using that len by simp
  from this [of 0] this [of 1] this [of 4] h show ?thesis by simp
qed

lemma join_closing:
  "join [nl] (h # mid @ [c, []]) = join [nl] (h # mid) @ nl # c @ [nl]"
proof -
  have "join [nl] ((h # mid) @ [c]) = join [nl] (h # mid) @ [nl] @ c"
    by (rule join_snoc) simp
  moreover have "join [nl] (((h # mid) @ [c]) @ [[]]) = join [nl] ((h # mid) @ [c]) @ [nl] @ []"
    by (rule join_snoc) simp
  ultimately show ?thesis by simp
qed

lemma header_no_break: "split_lines (''EVENT_'' @ show_nat k @ '':'') = [''EVENT_'' @ show_nat k @ '':'']"
  by (rule split_lines_no_break) (simp add: show_nat_no_break, simp add: nl_def)

lemma replicate_6: "replicate 6 c = [c, c, c, c, c, c]"
  by (simp add: numeral_eq_Suc)

lemma split_lines_rule [simp]: "split_lines (replicate n CHR ''='') = [replicate n CHR ''='']"
  by (rule split_lines_no_break) (simp add: nl_def)

lemma split_lines_dash [simp]: "split_lines (replicate n CHR ''-'') = [replicate n CHR ''-'']"
  by (rule split_lines_no_break) (simp add: nl_def)

lemma join_append:
  "xs \<noteq> [] \<Longrightarrow> ys \<noteq> [] \<Longrightarrow> join sep (xs @ ys) = join sep xs @ sep @ join sep ys"
proof (induction sep xs rule: join.induct)
  case (1 sep)
  then show ?case by simp
next
  case (2 sep p)
  then show ?case by (cases ys) simp_all
next
  case (3 sep p q ps)
  then show ?case by simp
qed

lemma join_nth:
  assumes "0 < k" and "Suc k < length ls"
  shows "join sep ls = join sep (take k ls) @ sep @ ls ! k @ sep @ join sep (drop (Suc k) ls)"
proof -
  from assms have k: "k < length ls" by simp
  from assms have a: "take k ls \<noteq> []" and b: "drop (Suc k) ls \<noteq> []" by auto
  have "ls = take k ls @ ([ls ! k] @ drop (Suc k) ls)"
    using id_take_nth_drop [OF k] by simp
  then have "join sep ls = join sep (take k ls @ ([ls ! k] @ drop (Suc k) ls))" by simp
  also have "\<dots> = join sep (take k ls) @ sep @ join sep ([ls ! k] @ drop (Suc k) ls)"
    by (rule join_append) (use a in simp_all)
  also have "join sep ([ls ! k] @ drop (Suc k) ls) = join sep [ls ! k] @ sep @ join sep (drop (Suc k) ls)"
    by (rule join_append) (use b in simp_all)
  finally show ?thesis by simp
qed

lemma format_head:
  assumes "format_log_entry (log_entry_of t s u es) = Inr out"
  shows "\<exists>rest. out = replicate 80 CHR ''='' @ nl # ''BATCH_TIMESTAMP: '' @ t
           @ nl # ''SESSION_ID: '' @ py_str s @ nl # ''USER_ID: '' @ py_str u @ nl # rest"
  using assms
  by (auto simp: format_log_entry_def log_lines_def log_entry_of_def dict_get_def and_then_eq_Inr)

lemma batch_entry:
  assumes "i < length ds" and "j < 6"
  shows "\<exists>ls out.
     log_lines (log_entry_of t s u (JArr (map JObj ds))) = Inr ls \<and>
     format_log_entry (log_entry_of t s u (JArr (map JObj ds))) = Inr out \<and>
     out = join [nl] (take (6 * i + 6 + j) ls) @ nl # ls ! (6 * i + 6 + j)
             @ nl # join [nl] (drop (6 * i + 7 + j) ls) \<and>
     take 6 (drop (6 + 6 * i) ls) =
             [''EVENT_'' @ show_nat (Suc i) @ '':'',
              ''  Type: '' @ py_str (if truthy (dict_get (ds ! i) ''eventType'' JNull)
                                     then dict_get (ds ! i) ''eventType'' JNull
                                     else dict_get (ds ! i) ''type'' (JStr ''unknown'')),
              ''  Timestamp: '' @ py_str (dict_get (ds ! i) ''timestamp'' (JStr ''unknown'')),
              ''  URL: '' @ py_str (dict_get (ds ! i) ''url'' (JStr ''unknown'')),
              ''  Data: '' @ render_data
                 (dict_get (ds ! i) ''data'' (dict_get (ds ! i) ''message'' (JStr ''no data''))),
              []]"
proof -
  from log_lines_event [OF assms(1), of t s u] obtain ls where
    ls: "log_lines (log_entry_of t s u (JArr (map JObj ds))) = Inr ls"
    and blk: "take 6 (drop (6 + 6 * i) ls) =
             [''EVENT_'' @ show_nat (Suc i) @ '':'',
              ''  Type: '' @ py_str (if truthy (dict_get (ds ! i) ''eventType'' JNull)
                                     then dict_get (ds ! i) ''eventType'' JNull
                                     else dict_get (ds ! i) ''type'' (JStr ''unknown'')),
              ''  Timestamp: '' @ py_str (dict_get (ds ! i) ''timestamp'' (JStr ''unknown'')),
              ''  URL: '' @ py_str (dict_get (ds ! i) ''url'' (JStr ''unknown'')),
              ''  Data: '' @ render_data
                 (dict_get (ds ! i) ''data'' (dict_get (ds ! i) ''message'' (JStr ''no data''))),
              []]"
    by blast
  from log_lines_batch [of ds t s u] ls have len: "length ls = 6 * length ds + 8"
    by auto
  from assms len have "0 < 6 * i + 6 + j" "Suc (6 * i + 6 + j) < length ls" by simp_all
  from join_nth [OF this, of "[nl]"]
  have "join [nl] ls = join [nl] (take (6 * i + 6 + j) ls) @ nl # ls ! (6 * i + 6 + j)
             @ nl # join [nl] (drop (Suc (6 * i + 6 + j)) ls)"
    by (simp only: append_Cons append_Nil)
  moreover have "Suc (6 * i + 6 + j) = 6 * i + 7 + j" by simp
  ultimately have "join [nl] ls = join [nl] (take (6 * i + 6 + j) ls) @ nl # ls ! (6 * i + 6 + j)
             @ nl # join [nl] (drop (6 * i + 7 + j) ls)"
    by (simp only:)
  with ls blk show ?thesis
    by (simp add: format_log_entry_def)
qed

lemma json_char_plain:
  assumes "32 \<le> (of_char c :: nat)" and "(of_char c :: nat) \<le> 126"
      and "c \<noteq> CHR 0x22" and "c \<noteq> CHR 0x5C"
  shows "json_char c = [c]"
proof -
  from assms(1) have "c \<noteq> CHR 0x0A" "c \<noteq> CHR 0x0D" "c \<noteq> CHR 0x09" "c \<noteq> CHR 0x08" "c \<noteq> CHR 0x0C"
    by auto
  with assms show ?thesis
    by (simp add: json_char_def dq_def bs_def)
qed

lemma json_char_digit: "c \<in> set ''0123456789'' \<Longrightarrow> json_char c = [c]"
  by (rule json_char_plain) auto

lemma json_chars_show_nat: "concat (map json_char (show_nat n)) = show_nat n"
proof -
  have "concat (map json_char s) = s" if "set s \<subseteq> set ''0123456789''" for s
    using that
  proof (induction s)
    case Nil
    show ?case by simp
  next
    case (Cons c s)
    then have "c \<in> set ''0123456789''" by simp
    then have "json_char c = [c]" by (rule json_char_digit)
    moreover from Cons have "concat (map json_char s) = s" by simp
    ultimately show ?case by simp
  qed
  with set_show_nat [of n] show ?thesis by blast
qed

lemma json_string_logged:
  "json_string (''Successfully logged '' @ show_nat n @ '' events'')
     = [CHR 0x22] @ ''Successfully logged '' @ show_nat n @ '' events'' @ [CHR 0x22]"
proof -
  have a: "concat (map json_char ''Successfully logged '') = ''Successfully logged ''"
    by (simp add: json_char_def dq_def bs_def)
  have b: "concat (map json_char '' events'') = '' events''"
    by (simp add: json_char_def dq_def bs_def)
  show ?thesis
    unfolding json_string_def dq_def map_append concat_append a b json_chars_show_nat
    by simp
qed

lemma success_body_text:
  "success_body n =
     ''{'' @ [CHR 0x22] @ ''status'' @ [CHR 0x22] @ '': '' @ [CHR 0x22] @ ''success'' @ [CHR 0x22]
       @ '', '' @ [CHR 0x22] @ ''message'' @ [CHR 0x22] @ '': ''
       @ [CHR 0x22] @ ''Successfully logged '' @ show_nat n @ '' events'' @ [CHR 0x22] @ ''}''"
proof -
  have "json_string ''status'' = [CHR 0x22] @ ''status'' @ [CHR 0x22]"
    "json_string ''success'' = [CHR 0x22] @ ''success'' @ [CHR 0x22]"
    "json_string ''message'' = [CHR 0x22] @ ''message'' @ [CHR 0x22]"
    by (simp_all add: json_string_def json_char_def dq_def bs_def)
  then show ?thesis
    unfolding success_body_def json_string_logged by simp
qed

lemma dumps_dict_layout:
  "json_dumps_indent 6 (JObj kvs) =
     (if kvs = [] then ''{}''
      else ''{'' @ nl # replicate 6 CHR '' ''
        @ join (CHR '','' # nl # replicate 6 CHR '' '')
            (map (\<lambda>kv. json_string (fst kv) @ '': '' @ json_encode 6 1 (snd kv)) kvs)
        @ nl # ''}'')"
  by (simp add: json_dumps_indent_def)

section \<open>The claims of the specification\<close>

text \<open>
  Claim C1. On a JSON object the three rules apply in order, the first match winning.
  A payload with an \<^verbatim>\<open>events\<close> field is a batch submission whether or not it also has a
  \<^verbatim>\<open>type\<close> field: an empty list gives the ids \<^verbatim>\<open>'unknown'\<close>, a list whose first element
  is an object gives that element's \<^verbatim>\<open>sessionId\<close> and \<^verbatim>\<open>userId\<close>, and whenever the
  branch returns, the events are the field's value. Without \<^verbatim>\<open>events\<close> but with
  \<^verbatim>\<open>type\<close> the result is the one-element batch of the payload with the ids
  \<^verbatim>\<open>'test_session'\<close> and \<^verbatim>\<open>'test_user'\<close>. With neither, it is the one-element batch of
  the payload with the payload's own ids, \<^verbatim>\<open>'unknown'\<close> when absent.
\<close>

theorem normalize_priority:
  "(map_of kvs ''events'' = Some (JArr []) \<longrightarrow>
      normalize (JObj kvs) = Inr (JArr [], JStr ''unknown'', JStr ''unknown'')) \<and>
   (\<forall>first rest. map_of kvs ''events'' = Some (JArr (JObj first # rest)) \<longrightarrow>
      normalize (JObj kvs) =
        Inr (JArr (JObj first # rest),
             dict_get first ''sessionId'' JNull, dict_get first ''userId'' JNull)) \<and>
   (\<forall>events b. map_of kvs ''events'' = Some events \<and> normalize (JObj kvs) = Inr b \<longrightarrow>
      fst b = events) \<and>
   (map_of kvs ''events'' = None \<and> map_of kvs ''type'' \<noteq> None \<longrightarrow>
      normalize (JObj kvs) =
        Inr (JArr [JObj kvs], JStr ''test_session'', JStr ''test_user'')) \<and>
   (map_of kvs ''events'' = None \<and> map_of kvs ''type'' = None \<longrightarrow>
      normalize (JObj kvs) =
        Inr (JArr [JObj kvs],
             dict_get kvs ''sessionId'' (JStr ''unknown''),
             dict_get kvs ''userId'' (JStr ''unknown'')))"
  by (auto simp: normalize_def has_key_iff first_field_def dict_get_def and_then_eq_Inr)

text \<open>The four shapes of payload, each through the theorem.\<close>

theorem normalize_priority_witness:
  "normalize (JObj [(''events'', JArr []), (''type'', JStr ''click'')])
     = Inr (JArr [], JStr ''unknown'', JStr ''unknown'') \<and>
   normalize (JObj [(''type'', JStr ''click''),
                    (''events'', JArr [JObj [(''sessionId'', JStr ''S''), (''userId'', JStr ''U'')]])])
     = Inr (JArr [JObj [(''sessionId'', JStr ''S''), (''userId'', JStr ''U'')]], JStr ''S'', JStr ''U'') \<and>
   normalize (JObj [(''type'', JStr ''click''), (''data'', JStr ''x'')])
     = Inr (JArr [JObj [(''type'', JStr ''click''), (''data'', JStr ''x'')]],
            JStr ''test_session'', JStr ''test_user'') \<and>
   normalize (JObj [(''foo'', JStr ''bar'')])
     = Inr (JArr [JObj [(''foo'', JStr ''bar'')]], JStr ''unknown'', JStr ''unknown'')"
  using normalize_priority [of "[(''events'', JArr []), (''type'', JStr ''click'')]"]
        normalize_priority [of "[(''type'', JStr ''click''),
                    (''events'', JArr [JObj [(''sessionId'', JStr ''S''), (''userId'', JStr ''U'')]])]"]
        normalize_priority [of "[(''type'', JStr ''click''), (''data'', JStr ''x'')]"]
        normalize_priority [of "[(''foo'', JStr ''bar'')]"]
  by (simp add: dict_get_def)

text \<open>
  Claim C2, as the code has it. A body that decodes to a JSON value other than an object
  (null, a boolean, a number, a string, an array) is answered with status 500, not 400: the
  duck-typed operations raise \<^verbatim>\<open>TypeError\<close> or \<^verbatim>\<open>AttributeError\<close>, which the catch-all
  handler turns into \<^verbatim>\<open>send_error(500)\<close>. The log file is left as it was.
\<close>

theorem non_object_payload_status:
  assumes "path req = ''/api/analytics/events'' \<or> path req = ''/analytics''"
      and "content_length req = Length n"
      and "body req = Json data"
      and "\<forall>kvs. data \<noteq> JObj kvs"
  shows "do_POST e req file = (Replied (Error 500 ''Internal server error''), file)"
proof -
  from normalize_non_dict [OF assms(4)] consider
      exn where "normalize data = Inl exn" "exn \<noteq> JSONDecodeError"
    | "normalize data = Inr (JArr [data], JStr ''test_session'', JStr ''test_user'')"
    by auto
  then show ?thesis
  proof cases
    case 1
    with assms show ?thesis by (auto simp: do_POST_def process_def)
  next
    case 2
    with assms format_single_non_dict [OF assms(4)] show ?thesis
      by (auto simp: do_POST_def process_def save_tracking_data_def)
  qed
qed

text \<open>The string \<^verbatim>\<open>"type"\<close> passes the membership tests and fails only in the loops.\<close>

theorem non_object_payload_status_witness:
  "do_POST \<lparr>now = ''2024-01-01T00:00:00'', disk_ok = True\<rparr>
      \<lparr>path = ''/analytics'', content_length = Length 6, body = Json (JStr ''type'')\<rparr>
      ''old''
     = (Replied (Error 500 ''Internal server error''), ''old'')"
  using non_object_payload_status
    [of "\<lparr>path = ''/analytics'', content_length = Length 6, body = Json (JStr ''type'')\<rparr>"
        6 "JStr ''type''" "\<lparr>now = ''2024-01-01T00:00:00'', disk_ok = True\<rparr>" "''old''"]
  by simp

text \<open>The array \<^verbatim>\<open>[1, 2]\<close> is valid JSON and not an object; the reply is 500.\<close>

theorem non_object_payload_counterexample:
  "fst (do_POST \<lparr>now = ''2024-01-01T00:00:00'', disk_ok = True\<rparr>
          \<lparr>path = ''/analytics'', content_length = Length 6, body = Json (JArr [JInt 1, JInt 2])\<rparr>
          [])
     = Replied (Error 500 ''Internal server error'')"
  by (simp add: do_POST_def process_def normalize_def)

text \<open>
  Claim C3, as the code has it. For a batch of \<open>N\<close> events the formatter builds a list of
  lines and joins it with line breaks. The fifth entry of the list is
  \<^verbatim>\<open>TOTAL_EVENTS: N\<close>, and it is a line of the block. The entries that begin with
  \<^verbatim>\<open>EVENT_\<close> are exactly the \<open>N\<close> headers \<^verbatim>\<open>EVENT_1:\<close> to \<^verbatim>\<open>EVENT_N:\<close>, in the order
  of the events, the header of event \<open>i\<close> (counted from 0) being entry \<open>6 + 6 * i\<close>. Field
  values are written into the entries as they are, so in the block itself the lines that
  begin with \<^verbatim>\<open>EVENT_\<close> are these \<open>N\<close> headers provided no entry has a line break
  followed by \<^verbatim>\<open>EVENT_\<close>.
\<close>

theorem event_headers:
  "\<exists>ls out.
     log_lines (log_entry_of t s u (JArr (map JObj ds))) = Inr ls \<and>
     format_log_entry (log_entry_of t s u (JArr (map JObj ds))) = Inr out \<and>
     out = join [nl] ls \<and>
     ls ! 4 = ''TOTAL_EVENTS: '' @ show_nat (length ds) \<and>
     ''TOTAL_EVENTS: '' @ show_nat (length ds) \<in> set (split_lines out) \<and>
     filter (\<lambda>l. take 6 l = ''EVENT_'') ls
       = map (\<lambda>i. ''EVENT_'' @ show_nat (Suc i) @ '':'') [0..<length ds] \<and>
     (\<forall>i<length ds. ls ! (6 + 6 * i) = ''EVENT_'' @ show_nat (Suc i) @ '':'') \<and>
     ((\<forall>l\<in>set ls. quiet l) \<longrightarrow>
        header_lines out = map (\<lambda>i. ''EVENT_'' @ show_nat (Suc i) @ '':'') [0..<length ds])"
proof -
  from log_lines_batch [of ds t s u] obtain blk where
    blk: "format_events 1 (map JObj ds) = Inr blk" "length blk = 6 * length ds"
    and ls: "log_lines (log_entry_of t s u (JArr (map JObj ds))) =
       Inr ([replicate 80 CHR ''='', ''BATCH_TIMESTAMP: '' @ t, ''SESSION_ID: '' @ py_str s,
             ''USER_ID: '' @ py_str u, ''TOTAL_EVENTS: '' @ show_nat (length ds),
             replicate 40 CHR ''-''] @ blk @ [replicate 80 CHR ''='', []])"
    by blast
  define hs where "hs = map (\<lambda>i. ''EVENT_'' @ show_nat (Suc i) @ '':'') [0..<length ds]"
  define lns where "lns = [replicate 80 CHR ''='', ''BATCH_TIMESTAMP: '' @ t,
             ''SESSION_ID: '' @ py_str s, ''USER_ID: '' @ py_str u,
             ''TOTAL_EVENTS: '' @ show_nat (length ds),
             replicate 40 CHR ''-''] @ blk @ [replicate 80 CHR ''='', []]"
  define out where "out = join [nl] lns"
  from ls have l: "log_lines (log_entry_of t s u (JArr (map JObj ds))) = Inr lns"
    by (simp add: lns_def)
  then have f: "format_log_entry (log_entry_of t s u (JArr (map JObj ds))) = Inr out"
    by (simp add: format_log_entry_def out_def)
  have total: "lns ! 4 = ''TOTAL_EVENTS: '' @ show_nat (length ds)"
    by (simp add: lns_def)
  have ne: "lns \<noteq> []" by (simp add: lns_def)
  have "split_lines (''TOTAL_EVENTS: '' @ show_nat (length ds))
          = [''TOTAL_EVENTS: '' @ show_nat (length ds)]"
    by (rule split_lines_no_break) (simp add: show_nat_no_break, simp add: nl_def)
  moreover have "''TOTAL_EVENTS: '' @ show_nat (length ds) \<in> set lns"
    by (simp add: lns_def)
  ultimately have intext: "''TOTAL_EVENTS: '' @ show_nat (length ds) \<in> set (split_lines out)"
    unfolding out_def split_lines_join [OF ne] by force
  from format_events_headers [OF blk(1)]
  have "filter (\<lambda>l. take 6 l = ''EVENT_'') blk = hs"
    by (simp add: hs_def)
  then have filt: "filter (\<lambda>l. take 6 l = ''EVENT_'') lns = hs"
    by (simp add: lns_def replicate_6)
  have nth: "lns ! (6 + 6 * i) = ''EVENT_'' @ show_nat (Suc i) @ '':''" if "i < length ds" for i
  proof -
    from log_lines_event [OF that, of t s u] l
    have "\<exists>a1 a2 a3 a4 a5. take 6 (drop (6 + 6 * i) lns) =
            [''EVENT_'' @ show_nat (Suc i) @ '':'', a1, a2, a3, a4, a5]"
      by auto
    then show ?thesis
      using nth_of_block [of "6 + 6 * i" lns] by blast
  qed
  have text_level: "header_lines out = hs" if "\<forall>l\<in>set lns. quiet l"
  proof -
    from header_lines_join [OF ne that] filt
    have "header_lines out = map (\<lambda>x. hd (split_lines x)) hs"
      by (simp add: out_def)
    also have "\<dots> = hs"
    proof (rule map_idI)
      fix h assume "h \<in> set hs"
      then obtain i where "h = ''EVENT_'' @ show_nat (Suc i) @ '':''"
        by (auto simp: hs_def)
      with header_no_break [of "Suc i"] show "hd (split_lines h) = h"
        by (simp only: list.sel)
    qed
    finally show ?thesis .
  qed
  from l f total intext filt nth text_level show ?thesis
    unfolding hs_def [symmetric]
    by (intro exI [of _ lns] exI [of _ out]) (simp add: out_def)
qed

text \<open>Two events, the second with a dict as data, whose rendering has line breaks.\<close>

theorem event_headers_witness:
  "(case format_log_entry (log_entry_of ''2024-01-01T00:00:00'' (JStr ''s1'') (JStr ''u1'')
            (JArr [JObj [(''type'', JStr ''click''), (''data'', JStr ''x'')],
                   JObj [(''eventType'', JStr ''view''),
                         (''data'', JObj [(''page'', JStr ''/home'')])]])) of
      Inl e \<Rightarrow> []
    | Inr out \<Rightarrow> header_lines out) = [''EVENT_1:'', ''EVENT_2:''] \<and>
   (case log_lines (log_entry_of ''2024-01-01T00:00:00'' (JStr ''s1'') (JStr ''u1'')
            (JArr [JObj [(''type'', JStr ''click''), (''data'', JStr ''x'')],
                   JObj [(''eventType'', JStr ''view''),
                         (''data'', JObj [(''page'', JStr ''/home'')])]])) of
      Inl e \<Rightarrow> []
    | Inr ls \<Rightarrow> [ls ! 4, ls ! 6, ls ! 12]) = [''TOTAL_EVENTS: 2'', ''EVENT_1:'', ''EVENT_2:'']"
proof -
  let ?ds = "[[(''type'', JStr ''click''), (''data'', JStr ''x'')],
              [(''eventType'', JStr ''view''), (''data'', JObj [(''page'', JStr ''/home'')])]]"
  let ?E = "log_entry_of ''2024-01-01T00:00:00'' (JStr ''s1'') (JStr ''u1'') (JArr (map JObj ?ds))"
  have q: "\<forall>l\<in>set ls. quiet l" if "log_lines ?E = Inr ls" for ls
    using that
    by (auto simp: log_lines_def log_entry_of_def dict_get_def format_event_def
        event_type_of_def event_data_of_def render_data_def quiet_def show_nat.simps
        json_dumps_indent_def json_string_def json_char_def dq_def bs_def nl_def replicate_6)
  have n: "show_nat (length ?ds) = ''2''" "show_nat (Suc 0) = ''1''" "show_nat (Suc (Suc 0)) = ''2''"
    by (simp_all add: show_nat.simps)
  from event_headers [of "''2024-01-01T00:00:00''" "JStr ''s1''" "JStr ''u1''" ?ds]
  obtain ls out where
    h: "log_lines ?E = Inr ls" "format_log_entry ?E = Inr out"
       "ls ! 4 = ''TOTAL_EVENTS: '' @ show_nat (length ?ds)"
       "\<forall>i<length ?ds. ls ! (6 + 6 * i) = ''EVENT_'' @ show_nat (Suc i) @ '':''"
       "(\<forall>l\<in>set ls. quiet l) \<longrightarrow>
          header_lines out = map (\<lambda>i. ''EVENT_'' @ show_nat (Suc i) @ '':'') [0..<length ?ds]"
    by blast
  have "(0::nat) < length ?ds" "(1::nat) < length ?ds" by simp_all
  with h(4) have "ls ! (6 + 6 * 0) = ''EVENT_'' @ show_nat (Suc 0) @ '':''"
    and "ls ! (6 + 6 * 1) = ''EVENT_'' @ show_nat (Suc 1) @ '':''"
    by blast+
  then have "ls ! 6 = ''EVENT_1:''" "ls ! 12 = ''EVENT_2:''"
    using n by simp_all
  moreover from h(5) q [OF h(1)] have "header_lines out = [''EVENT_1:'', ''EVENT_2:'']"
    using n by (simp add: upt_rec)
  ultimately show ?thesis
    using h(1,2,3) n by simp
qed

text \<open>One event whose data is the text \<^verbatim>\<open>x\<close>, a line break, \<^verbatim>\<open>EVENT_2:\<close>: the block of this batch of one event has two header lines.\<close>

theorem event_headers_counterexample:
  "(case format_log_entry (log_entry_of ''2024-01-01T00:00:00'' (JStr ''s1'') (JStr ''u1'')
            (JArr [JObj [(''type'', JStr ''click''),
                         (''data'', JStr (''x'' @ [nl] @ ''EVENT_2:''))]])) of
      Inl e \<Rightarrow> []
    | Inr out \<Rightarrow> header_lines out) = [''EVENT_1:'', ''EVENT_2:'']"
proof -
  let ?E = "log_entry_of ''2024-01-01T00:00:00'' (JStr ''s1'') (JStr ''u1'')
            (JArr [JObj [(''type'', JStr ''click''),
                         (''data'', JStr (''x'' @ [nl] @ ''EVENT_2:''))]])"
  let ?L = "[replicate 80 CHR ''='', ''BATCH_TIMESTAMP: 2024-01-01T00:00:00'', ''SESSION_ID: s1'',
             ''USER_ID: u1'', ''TOTAL_EVENTS: 1'', replicate 40 CHR ''-'',
             ''EVENT_1:'', ''  Type: click'', ''  Timestamp: unknown'', ''  URL: unknown'',
             ''  Data: x'' @ [nl] @ ''EVENT_2:'', [], replicate 80 CHR ''='', []]"
  have L: "log_lines ?E = Inr ?L"
    by (simp add: log_lines_def log_entry_of_def dict_get_def format_event_def
        event_type_of_def event_data_of_def render_data_def show_nat.simps)
  then have f: "format_log_entry ?E = Inr (join [nl] ?L)"
    by (simp only: format_log_entry_def and_then_Inr)
  have "split_lines (join [nl] ?L) = concat (map split_lines ?L)"
    by (rule split_lines_join) simp
  also have "\<dots> = [replicate 80 CHR ''='', ''BATCH_TIMESTAMP: 2024-01-01T00:00:00'',
             ''SESSION_ID: s1'', ''USER_ID: u1'', ''TOTAL_EVENTS: 1'', replicate 40 CHR ''-'',
             ''EVENT_1:'', ''  Type: click'', ''  Timestamp: unknown'', ''  URL: unknown'',
             ''  Data: x'', ''EVENT_2:'', [], replicate 80 CHR ''='', []]"
    by (simp add: nl_def)
  finally have "header_lines (join [nl] ?L) = [''EVENT_1:'', ''EVENT_2:'']"
    by (simp add: header_lines_def replicate_6)
  with f show ?thesis by (simp only: sum.case)
qed

text \<open>
  Claim C4. When normalisation and formatting succeed and the write to the log file
  fails, the client still gets status 200 with the two headers and the success body
  \<^verbatim>\<open>{"status": "success", "message": "Successfully logged k events"}\<close>, where \<open>k\<close> is the
  number of events in decimal; the log file is left as it was.
\<close>

theorem write_failure_not_surfaced:
  assumes "path req = ''/api/analytics/events'' \<or> path req = ''/analytics''"
      and "content_length req = Length n"
      and "body req = Json data"
      and "normalize data = Inr (events, session_id, user_id)"
      and "format_log_entry (log_entry_of (now e) session_id user_id events) = Inr out"
      and "\<not> disk_ok e"
  shows "\<exists>k. py_len events = Inr k \<and>
           do_POST e req file =
             (Replied (Response 200
                [(''Content-type'', ''application/json''),
                 (''Access-Control-Allow-Origin'', ''*'')]
                (''{'' @ [CHR 0x22] @ ''status'' @ [CHR 0x22] @ '': ''
                   @ [CHR 0x22] @ ''success'' @ [CHR 0x22] @ '', ''
                   @ [CHR 0x22] @ ''message'' @ [CHR 0x22] @ '': ''
                   @ [CHR 0x22] @ ''Successfully logged '' @ show_nat k @ '' events''
                   @ [CHR 0x22] @ ''}'')), file)"
proof -
  from format_console_report [OF assms(5)] obtain k printed where
    k: "py_len events = Inr k" "console_report session_id user_id events = Inr printed"
    by blast
  with assms have "do_POST e req file =
      (Replied (Response 200
         [(''Content-type'', ''application/json''), (''Access-Control-Allow-Origin'', ''*'')]
         (success_body k)), file)"
    by (auto simp: do_POST_def process_def save_tracking_data_def)
  with k(1) show ?thesis
    unfolding success_body_text by blast
qed

text \<open>A batch of two events, with a disk that refuses the write.\<close>

theorem write_failure_not_surfaced_witness:
  "do_POST \<lparr>now = ''2024-01-01T00:00:00'', disk_ok = False\<rparr>
      \<lparr>path = ''/analytics'', content_length = Length 60,
       body = Json (JObj [(''events'',
                 JArr [JObj [(''eventType'', JStr ''view''), (''sessionId'', JStr ''S'')],
                       JObj [(''type'', JStr ''click'')]])])\<rparr>
      ''old''
     = (Replied (Response 200
          [(''Content-type'', ''application/json''), (''Access-Control-Allow-Origin'', ''*'')]
          (''{'' @ [CHR 0x22] @ ''status'' @ [CHR 0x22] @ '': ''
             @ [CHR 0x22] @ ''success'' @ [CHR 0x22] @ '', ''
             @ [CHR 0x22] @ ''message'' @ [CHR 0x22] @ '': ''
             @ [CHR 0x22] @ ''Successfully logged 2 events'' @ [CHR 0x22] @ ''}'')), ''old'')"
proof -
  let ?ds = "[[(''eventType'', JStr ''view''), (''sessionId'', JStr ''S'')], [(''type'', JStr ''click'')]]"
  let ?d = "[(''events'', JArr (map JObj ?ds))]"
  let ?e = "\<lparr>now = ''2024-01-01T00:00:00'', disk_ok = False\<rparr>"
  let ?r = "\<lparr>path = ''/analytics'', content_length = Length 60, body = Json (JObj ?d)\<rparr>"
  have n: "normalize (JObj ?d) = Inr (JArr (map JObj ?ds), JStr ''S'', JNull)"
    by (simp add: normalize_def first_field_def dict_get_def)
  from log_lines_batch [of ?ds "''2024-01-01T00:00:00''" "JStr ''S''" JNull]
  obtain out where
    f: "format_log_entry (log_entry_of (now ?e) (JStr ''S'') JNull (JArr (map JObj ?ds))) = Inr out"
    by (auto simp: format_log_entry_def)
  have s: "show_nat 2 = ''2''" "show_nat (Suc (Suc 0)) = ''2''" by (simp_all add: show_nat.simps)
  from write_failure_not_surfaced [of ?r 60 "JObj ?d" "JArr (map JObj ?ds)" "JStr ''S''"
      JNull ?e out "''old''", OF _ _ _ n f]
  show ?thesis using s by simp
qed

text \<open>
  Claim C5. The handler answers a body on which \<^verbatim>\<open>json.loads\<close> raises
  \<^verbatim>\<open>JSONDecodeError\<close> with status 400 and leaves the log file as it was. Two kinds of body
  that are not valid JSON miss that path. A body that is not UTF-8 (the single byte 0xFF)
  makes \<^verbatim>\<open>decode\<close> raise \<^verbatim>\<open>UnicodeDecodeError\<close>, which is not a \<^verbatim>\<open>JSONDecodeError\<close>:
  the reply is 500, the log file left as it was. A body with the literal \<^verbatim>\<open>NaN\<close>, as in
  \<^verbatim>\<open>{"type": NaN}\<close>, is accepted by \<^verbatim>\<open>json.loads\<close> as a float: the reply is 200 and a
  block is appended to the log file.
\<close>

theorem invalid_json_body_outcomes:
  "do_POST \<lparr>now = ''2024-01-01T00:00:00'', disk_ok = True\<rparr>
      \<lparr>path = ''/analytics'', content_length = Length 8, body = NotJson\<rparr> ''old''
     = (Replied (Error 400 ''Invalid JSON''), ''old'') \<and>
   do_POST \<lparr>now = ''2024-01-01T00:00:00'', disk_ok = True\<rparr>
      \<lparr>path = ''/analytics'', content_length = Length 1, body = NotUtf8\<rparr> ''old''
     = (Replied (Error 500 ''Internal server error''), ''old'') \<and>
   fst (do_POST \<lparr>now = ''2024-01-01T00:00:00'', disk_ok = True\<rparr>
          \<lparr>path = ''/analytics'', content_length = Length 13,
           body = Json (JObj [(''type'', JFloat ''nan'')])\<rparr> ''old'')
     = Replied (Response 200
          [(''Content-type'', ''application/json''), (''Access-Control-Allow-Origin'', ''*'')]
          (''{'' @ [CHR 0x22] @ ''status'' @ [CHR 0x22] @ '': ''
             @ [CHR 0x22] @ ''success'' @ [CHR 0x22] @ '', ''
             @ [CHR 0x22] @ ''message'' @ [CHR 0x22] @ '': ''
             @ [CHR 0x22] @ ''Successfully logged 1 events'' @ [CHR 0x22] @ ''}'')) \<and>
   length (snd (do_POST \<lparr>now = ''2024-01-01T00:00:00'', disk_ok = True\<rparr>
          \<lparr>path = ''/analytics'', content_length = Length 13,
           body = Json (JObj [(''type'', JFloat ''nan'')])\<rparr> ''old'')) > length ''old''"
proof -
  let ?d = "[(''type'', JFloat ''nan'')]"
  have n: "normalize (JObj ?d) = Inr (JArr [JObj ?d], JStr ''test_session'', JStr ''test_user'')"
    by (simp add: normalize_def)
  from log_lines_batch [of "[?d]" "''2024-01-01T00:00:00''" "JStr ''test_session''" "JStr ''test_user''"]
  obtain out where
    f: "format_log_entry (log_entry_of ''2024-01-01T00:00:00'' (JStr ''test_session'')
          (JStr ''test_user'') (JArr [JObj ?d])) = Inr out"
    by (auto simp: format_log_entry_def)
  from format_console_report [OF f] obtain k printed where
    k: "console_report (JStr ''test_session'') (JStr ''test_user'') (JArr [JObj ?d]) = Inr printed"
    by blast
  have s: "show_nat (Suc 0) = ''1''" by (simp add: show_nat.simps)
  from n f k show ?thesis
    by (simp add: do_POST_def process_def save_tracking_data_def success_body_text s)
qed

text \<open>
  Claim C6, as the code has it. For event \<open>i\<close> of a batch (counted from 0) the formatter
  returns a text in which entry \<open>6 * i + 7\<close> of the line list stands between two line
  breaks, after the header \<^verbatim>\<open>EVENT_<i+1>:\<close> of the event. That line is \<^verbatim>\<open>Type:\<close> followed
  by the \<^verbatim>\<open>eventType\<close> field when it is present and true in Python's sense (not
  \<^verbatim>\<open>None\<close>, \<^verbatim>\<open>False\<close>, zero or empty); otherwise by the \<^verbatim>\<open>type\<close> field when present;
  otherwise by \<^verbatim>\<open>unknown\<close>.
\<close>

theorem type_line:
  assumes "i < length ds"
  shows "\<exists>ls out.
     log_lines (log_entry_of t s u (JArr (map JObj ds))) = Inr ls \<and>
     format_log_entry (log_entry_of t s u (JArr (map JObj ds))) = Inr out \<and>
     out = join [nl] (take (6 * i + 7) ls) @ nl # ls ! (6 * i + 7)
             @ nl # join [nl] (drop (6 * i + 8) ls) \<and>
     ls ! (6 * i + 6) = ''EVENT_'' @ show_nat (Suc i) @ '':'' \<and>
     (\<forall>et. map_of (ds ! i) ''eventType'' = Some et \<and> truthy et \<longrightarrow>
        ls ! (6 * i + 7) = ''  Type: '' @ py_str et) \<and>
     (\<forall>ty. \<not> truthy (dict_get (ds ! i) ''eventType'' JNull) \<and>
           map_of (ds ! i) ''type'' = Some ty \<longrightarrow>
        ls ! (6 * i + 7) = ''  Type: '' @ py_str ty) \<and>
     (\<not> truthy (dict_get (ds ! i) ''eventType'' JNull) \<and> map_of (ds ! i) ''type'' = None \<longrightarrow>
        ls ! (6 * i + 7) = ''  Type: unknown'')"
proof -
  have j: "(1::nat) < 6" by simp
  from batch_entry [OF assms j, of t s u] obtain ls out where
    ls: "log_lines (log_entry_of t s u (JArr (map JObj ds))) = Inr ls"
    and out: "format_log_entry (log_entry_of t s u (JArr (map JObj ds))) = Inr out"
    and pos: "out = join [nl] (take (6 * i + 6 + 1) ls) @ nl # ls ! (6 * i + 6 + 1)
             @ nl # join [nl] (drop (6 * i + 7 + 1) ls)"
    and blk: "take 6 (drop (6 + 6 * i) ls) =
             [''EVENT_'' @ show_nat (Suc i) @ '':'',
              ''  Type: '' @ py_str (if truthy (dict_get (ds ! i) ''eventType'' JNull)
                                     then dict_get (ds ! i) ''eventType'' JNull
                                     else dict_get (ds ! i) ''type'' (JStr ''unknown'')),
              ''  Timestamp: '' @ py_str (dict_get (ds ! i) ''timestamp'' (JStr ''unknown'')),
              ''  URL: '' @ py_str (dict_get (ds ! i) ''url'' (JStr ''unknown'')),
              ''  Data: '' @ render_data
                 (dict_get (ds ! i) ''data'' (dict_get (ds ! i) ''message'' (JStr ''no data''))),
              []]"
    by blast
  have e: "6 * i + 6 + 1 = 6 * i + 7" "6 * i + 7 + 1 = 6 * i + 8" by simp_all
  from pos have pos': "out = join [nl] (take (6 * i + 7) ls) @ nl # ls ! (6 * i + 7)
             @ nl # join [nl] (drop (6 * i + 8) ls)"
    unfolding e .
  from nth_of_block [OF blk]
  have hd: "ls ! (6 * i + 6) = ''EVENT_'' @ show_nat (Suc i) @ '':''"
    and line: "ls ! (6 * i + 7) =
      ''  Type: '' @ py_str (if truthy (dict_get (ds ! i) ''eventType'' JNull)
                             then dict_get (ds ! i) ''eventType'' JNull
                             else dict_get (ds ! i) ''type'' (JStr ''unknown''))"
    by (simp_all add: add.commute)
  have a: "ls ! (6 * i + 7) = ''  Type: '' @ py_str et"
    if "map_of (ds ! i) ''eventType'' = Some et \<and> truthy et" for et
    using that line by (simp add: dict_get_def)
  have b: "ls ! (6 * i + 7) = ''  Type: '' @ py_str ty"
    if "\<not> truthy (dict_get (ds ! i) ''eventType'' JNull) \<and> map_of (ds ! i) ''type'' = Some ty" for ty
    using that line by (simp add: dict_get_def)
  have c: "ls ! (6 * i + 7) = ''  Type: unknown''"
    if "\<not> truthy (dict_get (ds ! i) ''eventType'' JNull) \<and> map_of (ds ! i) ''type'' = None"
    using that line by (simp add: dict_get_def)
  from ls out pos' hd a b c show ?thesis by blast
qed

text \<open>Three events, one for each case; the whole text the formatter returns.\<close>

theorem type_line_witness:
  "format_log_entry (log_entry_of ''2024-01-01T00:00:00'' (JStr ''s1'') (JStr ''u1'')
       (JArr [JObj [(''eventType'', JStr ''view''), (''type'', JStr ''click'')],
              JObj [(''eventType'', JInt 0), (''type'', JStr ''scroll'')],
              JObj [(''data'', JStr ''x'')]]))
     = Inr (join [nl]
         [replicate 80 CHR ''='', ''BATCH_TIMESTAMP: 2024-01-01T00:00:00'', ''SESSION_ID: s1'',
          ''USER_ID: u1'', ''TOTAL_EVENTS: 3'', replicate 40 CHR ''-'',
          ''EVENT_1:'', ''  Type: view'', ''  Timestamp: unknown'', ''  URL: unknown'',
          ''  Data: no data'', [],
          ''EVENT_2:'', ''  Type: scroll'', ''  Timestamp: unknown'', ''  URL: unknown'',
          ''  Data: no data'', [],
          ''EVENT_3:'', ''  Type: unknown'', ''  Timestamp: unknown'', ''  URL: unknown'',
          ''  Data: x'', [],
          replicate 80 CHR ''='', []])"
proof -
  let ?ds = "[[(''eventType'', JStr ''view''), (''type'', JStr ''click'')],
              [(''eventType'', JInt 0), (''type'', JStr ''scroll'')],
              [(''data'', JStr ''x'')]]"
  let ?E = "log_entry_of ''2024-01-01T00:00:00'' (JStr ''s1'') (JStr ''u1'') (JArr (map JObj ?ds))"
  have n: "show_nat (Suc 0) = ''1''" "show_nat (Suc (Suc 0)) = ''2''"
    "show_nat (Suc (Suc (Suc 0))) = ''3''" "show_nat 3 = ''3''"
    by (simp_all add: show_nat.simps)
  from type_line [of 0 ?ds "''2024-01-01T00:00:00''" "JStr ''s1''" "JStr ''u1''"]
  obtain l0 out where
    a: "log_lines ?E = Inr l0" "format_log_entry ?E = Inr out" "l0 ! 7 = ''  Type: view''"
    by (auto simp: dict_get_def)
  from type_line [of 1 ?ds "''2024-01-01T00:00:00''" "JStr ''s1''" "JStr ''u1''"] a(1)
  have b: "l0 ! 13 = ''  Type: scroll''"
    by (auto simp: dict_get_def)
  from type_line [of 2 ?ds "''2024-01-01T00:00:00''" "JStr ''s1''" "JStr ''u1''"] a(1)
  have c: "l0 ! 19 = ''  Type: unknown''"
    by (auto simp: dict_get_def)
  from a(1) have "l0 = [replicate 80 CHR ''='', ''BATCH_TIMESTAMP: 2024-01-01T00:00:00'',
          ''SESSION_ID: s1'', ''USER_ID: u1'', ''TOTAL_EVENTS: 3'', replicate 40 CHR ''-'',
          ''EVENT_1:'', l0 ! 7, ''  Timestamp: unknown'', ''  URL: unknown'',
          ''  Data: no data'', [],
          ''EVENT_2:'', l0 ! 13, ''  Timestamp: unknown'', ''  URL: unknown'',
          ''  Data: no data'', [],
          ''EVENT_3:'', l0 ! 19, ''  Timestamp: unknown'', ''  URL: unknown'',
          ''  Data: x'', [],
          replicate 80 CHR ''='', []]"
    by (auto simp: log_lines_def log_entry_of_def dict_get_def format_event_def
        event_type_of_def event_data_of_def render_data_def n)
  with a(1,2) b c show ?thesis
    unfolding a(3) by (simp add: format_log_entry_def)
qed

text \<open>Both fields are present, \<^verbatim>\<open>eventType\<close> is the empty string, and the text shows \<^verbatim>\<open>type\<close>.\<close>

theorem type_line_counterexample:
  "format_log_entry (log_entry_of ''2024-01-01T00:00:00'' (JStr ''s1'') (JStr ''u1'')
       (JArr [JObj [(''eventType'', JStr []), (''type'', JStr ''click'')]]))
     = Inr (join [nl]
         [replicate 80 CHR ''='', ''BATCH_TIMESTAMP: 2024-01-01T00:00:00'', ''SESSION_ID: s1'',
          ''USER_ID: u1'', ''TOTAL_EVENTS: 1'', replicate 40 CHR ''-'',
          ''EVENT_1:'', ''  Type: click'', ''  Timestamp: unknown'', ''  URL: unknown'',
          ''  Data: no data'', [],
          replicate 80 CHR ''='', []])"
  by (simp add: format_log_entry_def log_lines_def log_entry_of_def dict_get_def format_event_def
      event_type_of_def event_data_of_def render_data_def show_nat.simps)

text \<open>
  Claim C7. For event \<open>i\<close> of a batch the formatter returns a text in which entry
  \<open>6 * i + 10\<close> of the line list stands between two line breaks. That entry is
  \<^verbatim>\<open>Data:\<close> followed by the rendering of the \<^verbatim>\<open>data\<close> field, or else of the
  \<^verbatim>\<open>message\<close> field, or else of the text \<^verbatim>\<open>no data\<close>. A dict is rendered by
  \<^verbatim>\<open>json.dumps\<close> with an indent of 6: \<^verbatim>\<open>{}\<close> when empty, otherwise an opening brace,
  every item on a line of its own after 6 spaces as the quoted key, a colon, a space and
  the value, the items separated by a comma before the line break, and the closing brace
  on a line of its own. Any other value is rendered by \<^verbatim>\<open>str\<close>, a string as itself.
\<close>

theorem data_line:
  assumes "i < length ds"
  shows "\<exists>ls out.
     log_lines (log_entry_of t s u (JArr (map JObj ds))) = Inr ls \<and>
     format_log_entry (log_entry_of t s u (JArr (map JObj ds))) = Inr out \<and>
     out = join [nl] (take (6 * i + 10) ls) @ nl # ls ! (6 * i + 10)
             @ nl # join [nl] (drop (6 * i + 11) ls) \<and>
     ls ! (6 * i + 6) = ''EVENT_'' @ show_nat (Suc i) @ '':'' \<and>
     (\<forall>v. map_of (ds ! i) ''data'' = Some v \<or>
           map_of (ds ! i) ''data'' = None \<and> map_of (ds ! i) ''message'' = Some v \<or>
           map_of (ds ! i) ''data'' = None \<and> map_of (ds ! i) ''message'' = None \<and>
             v = JStr ''no data'' \<longrightarrow>
        (\<forall>kvs. v = JObj kvs \<longrightarrow>
           ls ! (6 * i + 10) = ''  Data: '' @ json_dumps_indent 6 v \<and>
           json_dumps_indent 6 v =
             (if kvs = [] then ''{}''
              else ''{'' @ nl # replicate 6 CHR '' ''
                @ join (CHR '','' # nl # replicate 6 CHR '' '')
                    (map (\<lambda>kv. json_string (fst kv) @ '': '' @ json_encode 6 1 (snd kv)) kvs)
                @ nl # ''}'')) \<and>
        ((\<forall>kvs. v \<noteq> JObj kvs) \<longrightarrow> ls ! (6 * i + 10) = ''  Data: '' @ py_str v) \<and>
        (\<forall>x. v = JStr x \<longrightarrow> ls ! (6 * i + 10) = ''  Data: '' @ x))"
proof -
  have j: "(4::nat) < 6" by simp
  from batch_entry [OF assms j, of t s u] obtain ls out where
    ls: "log_lines (log_entry_of t s u (JArr (map JObj ds))) = Inr ls"
    and out: "format_log_entry (log_entry_of t s u (JArr (map JObj ds))) = Inr out"
    and pos: "out = join [nl] (take (6 * i + 6 + 4) ls) @ nl # ls ! (6 * i + 6 + 4)
             @ nl # join [nl] (drop (6 * i + 7 + 4) ls)"
    and blk: "take 6 (drop (6 + 6 * i) ls) =
             [''EVENT_'' @ show_nat (Suc i) @ '':'',
              ''  Type: '' @ py_str (if truthy (dict_get (ds ! i) ''eventType'' JNull)
                                     then dict_get (ds ! i) ''eventType'' JNull
                                     else dict_get (ds ! i) ''type'' (JStr ''unknown'')),
              ''  Timestamp: '' @ py_str (dict_get (ds ! i) ''timestamp'' (JStr ''unknown'')),
              ''  URL: '' @ py_str (dict_get (ds ! i) ''url'' (JStr ''unknown'')),
              ''  Data: '' @ render_data
                 (dict_get (ds ! i) ''data'' (dict_get (ds ! i) ''message'' (JStr ''no data''))),
              []]"
    by blast
  have e: "6 * i + 6 + 4 = 6 * i + 10" "6 * i + 7 + 4 = 6 * i + 11" by simp_all
  from pos have pos': "out = join [nl] (take (6 * i + 10) ls) @ nl # ls ! (6 * i + 10)
             @ nl # join [nl] (drop (6 * i + 11) ls)"
    unfolding e .
  from nth_of_block [OF blk]
  have hd: "ls ! (6 * i + 6) = ''EVENT_'' @ show_nat (Suc i) @ '':''"
    and line: "ls ! (6 * i + 10) =
      ''  Data: '' @ render_data
         (dict_get (ds ! i) ''data'' (dict_get (ds ! i) ''message'' (JStr ''no data'')))"
    by (simp_all add: add.commute)
  have sel: "(\<forall>kvs. v = JObj kvs \<longrightarrow>
           ls ! (6 * i + 10) = ''  Data: '' @ json_dumps_indent 6 v \<and>
           json_dumps_indent 6 v =
             (if kvs = [] then ''{}''
              else ''{'' @ nl # replicate 6 CHR '' ''
                @ join (CHR '','' # nl # replicate 6 CHR '' '')
                    (map (\<lambda>kv. json_string (fst kv) @ '': '' @ json_encode 6 1 (snd kv)) kvs)
                @ nl # ''}'')) \<and>
        ((\<forall>kvs. v \<noteq> JObj kvs) \<longrightarrow> ls ! (6 * i + 10) = ''  Data: '' @ py_str v) \<and>
        (\<forall>x. v = JStr x \<longrightarrow> ls ! (6 * i + 10) = ''  Data: '' @ x)"
    if "map_of (ds ! i) ''data'' = Some v \<or>
        map_of (ds ! i) ''data'' = None \<and> map_of (ds ! i) ''message'' = Some v \<or>
        map_of (ds ! i) ''data'' = None \<and> map_of (ds ! i) ''message'' = None \<and>
          v = JStr ''no data''" for v
  proof -
    from that
    have "dict_get (ds ! i) ''data'' (dict_get (ds ! i) ''message'' (JStr ''no data'')) = v"
      by (auto simp: dict_get_def)
    with line have l: "ls ! (6 * i + 10) = ''  Data: '' @ render_data v" by simp
    show ?thesis
    proof (cases v)
      case (JObj kvs)
      with l dumps_dict_layout [of kvs] show ?thesis
        by (simp add: render_data_def)
    qed (use l in \<open>simp_all add: render_data_def\<close>)
  qed
  from ls out pos' hd sel show ?thesis by blast
qed

text \<open>A nested dict under \<^verbatim>\<open>data\<close>, a dict and a list under \<^verbatim>\<open>message\<close>, and neither field; the whole text the formatter returns.\<close>

theorem data_line_witness:
  "format_log_entry (log_entry_of ''2024-01-01T00:00:00'' (JStr ''s1'') (JStr ''u1'')
       (JArr [JObj [(''data'', JObj [(''page'', JStr ''/home''),
                                     (''tags'', JArr [JStr ''a'', JInt 1]),
                                     (''meta'', JObj [])]),
                    (''message'', JStr ''m'')],
              JObj [(''message'', JObj [(''ok'', JBool True)])],
              JObj [(''message'', JArr [JInt 1, JNull, JStr ''a''])],
              JObj [(''type'', JStr ''click'')]]))
     = Inr (join [nl]
         [replicate 80 CHR ''='', ''BATCH_TIMESTAMP: 2024-01-01T00:00:00'', ''SESSION_ID: s1'',
          ''USER_ID: u1'', ''TOTAL_EVENTS: 4'', replicate 40 CHR ''-'',
          ''EVENT_1:'', ''  Type: unknown'', ''  Timestamp: unknown'', ''  URL: unknown'',
          ''  Data: {'' @ [CHR 0x0A]
            @ replicate 6 CHR '' '' @ [CHR 0x22] @ ''page'' @ [CHR 0x22] @ '': ''
                @ [CHR 0x22] @ ''/home'' @ [CHR 0x22] @ '','' @ [CHR 0x0A]
            @ replicate 6 CHR '' '' @ [CHR 0x22] @ ''tags'' @ [CHR 0x22] @ '': ['' @ [CHR 0x0A]
            @ replicate 12 CHR '' '' @ [CHR 0x22] @ ''a'' @ [CHR 0x22] @ '','' @ [CHR 0x0A]
            @ replicate 12 CHR '' '' @ ''1'' @ [CHR 0x0A]
            @ replicate 6 CHR '' '' @ ''],'' @ [CHR 0x0A]
            @ replicate 6 CHR '' '' @ [CHR 0x22] @ ''meta'' @ [CHR 0x22] @ '': {}'' @ [CHR 0x0A]
            @ ''}'',
          [],
          ''EVENT_2:'', ''  Type: unknown'', ''  Timestamp: unknown'', ''  URL: unknown'',
          ''  Data: {'' @ [CHR 0x0A]
            @ replicate 6 CHR '' '' @ [CHR 0x22] @ ''ok'' @ [CHR 0x22] @ '': true'' @ [CHR 0x0A]
            @ ''}'',
          [],
          ''EVENT_3:'', ''  Type: unknown'', ''  Timestamp: unknown'', ''  URL: unknown'',
          ''  Data: [1, None, '' @ [CHR 0x27] @ ''a'' @ [CHR 0x27] @ '']'', [],
          ''EVENT_4:'', ''  Type: click'', ''  Timestamp: unknown'', ''  URL: unknown'',
          ''  Data: no data'', [],
          replicate 80 CHR ''='', []])"
proof -
  let ?ds = "[[(''data'', JObj [(''page'', JStr ''/home''),
                                (''tags'', JArr [JStr ''a'', JInt 1]),
                                (''meta'', JObj [])]),
               (''message'', JStr ''m'')],
              [(''message'', JObj [(''ok'', JBool True)])],
              [(''message'', JArr [JInt 1, JNull, JStr ''a''])],
              [(''type'', JStr ''click'')]]"
  let ?E = "log_entry_of ''2024-01-01T00:00:00'' (JStr ''s1'') (JStr ''u1'') (JArr (map JObj ?ds))"
  have n: "show_nat (Suc 0) = ''1''" "show_nat (Suc (Suc 0)) = ''2''"
    "show_nat (Suc (Suc (Suc 0))) = ''3''" "show_nat (Suc (Suc (Suc (Suc 0)))) = ''4''"
    "show_nat 4 = ''4''" "show_nat 1 = ''1''"
    by (simp_all add: show_nat.simps)
  from log_lines_batch [of ?ds "''2024-01-01T00:00:00''" "JStr ''s1''" "JStr ''u1''"]
  obtain l0 where a: "log_lines ?E = Inr l0"
    by blast
  from data_line [of 0 ?ds "''2024-01-01T00:00:00''" "JStr ''s1''" "JStr ''u1''"] a(1)
  have d0: "l0 ! 10 = ''  Data: {'' @ [CHR 0x0A]
            @ replicate 6 CHR '' '' @ [CHR 0x22] @ ''page'' @ [CHR 0x22] @ '': ''
                @ [CHR 0x22] @ ''/home'' @ [CHR 0x22] @ '','' @ [CHR 0x0A]
            @ replicate 6 CHR '' '' @ [CHR 0x22] @ ''tags'' @ [CHR 0x22] @ '': ['' @ [CHR 0x0A]
            @ replicate 12 CHR '' '' @ [CHR 0x22] @ ''a'' @ [CHR 0x22] @ '','' @ [CHR 0x0A]
            @ replicate 12 CHR '' '' @ ''1'' @ [CHR 0x0A]
            @ replicate 6 CHR '' '' @ ''],'' @ [CHR 0x0A]
            @ replicate 6 CHR '' '' @ [CHR 0x22] @ ''meta'' @ [CHR 0x22] @ '': {}'' @ [CHR 0x0A]
            @ ''}''"
    by (auto simp: json_string_def json_char_def dq_def bs_def nl_def show_int_def n)
  from data_line [of 1 ?ds "''2024-01-01T00:00:00''" "JStr ''s1''" "JStr ''u1''"] a(1)
  have d1: "l0 ! 16 = ''  Data: {'' @ [CHR 0x0A]
            @ replicate 6 CHR '' '' @ [CHR 0x22] @ ''ok'' @ [CHR 0x22] @ '': true'' @ [CHR 0x0A]
            @ ''}''"
    by (auto simp: json_string_def json_char_def dq_def bs_def nl_def show_int_def n)
  from data_line [of 2 ?ds "''2024-01-01T00:00:00''" "JStr ''s1''" "JStr ''u1''"] a(1)
  have d2: "l0 ! 22 = ''  Data: [1, None, '' @ [CHR 0x27] @ ''a'' @ [CHR 0x27] @ '']''"
    by (auto simp: repr_str_def repr_char_def printable_def sq_def dq_def bs_def show_int_def n Let_def)
  from data_line [of 3 ?ds "''2024-01-01T00:00:00''" "JStr ''s1''" "JStr ''u1''"] a(1)
  have d3: "l0 ! 28 = ''  Data: no data''"
    by auto
  from a(1) have "l0 = [replicate 80 CHR ''='', ''BATCH_TIMESTAMP: 2024-01-01T00:00:00'',
          ''SESSION_ID: s1'', ''USER_ID: u1'', ''TOTAL_EVENTS: 4'', replicate 40 CHR ''-'',
          ''EVENT_1:'', ''  Type: unknown'', ''  Timestamp: unknown'', ''  URL: unknown'',
          l0 ! 10, [],
          ''EVENT_2:'', ''  Type: unknown'', ''  Timestamp: unknown'', ''  URL: unknown'',
          l0 ! 16, [],
          ''EVENT_3:'', ''  Type: unknown'', ''  Timestamp: unknown'', ''  URL: unknown'',
          l0 ! 22, [],
          ''EVENT_4:'', ''  Type: click'', ''  Timestamp: unknown'', ''  URL: unknown'',
          l0 ! 28, [],
          replicate 80 CHR ''='', []]"
    by (auto simp: log_lines_def log_entry_of_def dict_get_def format_event_def
        event_type_of_def event_data_of_def n)
  then have "l0 = [replicate 80 CHR ''='', ''BATCH_TIMESTAMP: 2024-01-01T00:00:00'',
          ''SESSION_ID: s1'', ''USER_ID: u1'', ''TOTAL_EVENTS: 4'', replicate 40 CHR ''-'',
          ''EVENT_1:'', ''  Type: unknown'', ''  Timestamp: unknown'', ''  URL: unknown'',
          ''  Data: {'' @ [CHR 0x0A]
            @ replicate 6 CHR '' '' @ [CHR 0x22] @ ''page'' @ [CHR 0x22] @ '': ''
                @ [CHR 0x22] @ ''/home'' @ [CHR 0x22] @ '','' @ [CHR 0x0A]
            @ replicate 6 CHR '' '' @ [CHR 0x22] @ ''tags'' @ [CHR 0x22] @ '': ['' @ [CHR 0x0A]
            @ replicate 12 CHR '' '' @ [CHR 0x22] @ ''a'' @ [CHR 0x22] @ '','' @ [CHR 0x0A]
            @ replicate 12 CHR '' '' @ ''1'' @ [CHR 0x0A]
            @ replicate 6 CHR '' '' @ ''],'' @ [CHR 0x0A]
            @ replicate 6 CHR '' '' @ [CHR 0x22] @ ''meta'' @ [CHR 0x22] @ '': {}'' @ [CHR 0x0A]
            @ ''}'', [],
          ''EVENT_2:'', ''  Type: unknown'', ''  Timestamp: unknown'', ''  URL: unknown'',
          ''  Data: {'' @ [CHR 0x0A]
            @ replicate 6 CHR '' '' @ [CHR 0x22] @ ''ok'' @ [CHR 0x22] @ '': true'' @ [CHR 0x0A]
            @ ''}'', [],
          ''EVENT_3:'', ''  Type: unknown'', ''  Timestamp: unknown'', ''  URL: unknown'',
          ''  Data: [1, None, '' @ [CHR 0x27] @ ''a'' @ [CHR 0x27] @ '']'', [],
          ''EVENT_4:'', ''  Type: click'', ''  Timestamp: unknown'', ''  URL: unknown'',
          ''  Data: no data'', [],
          replicate 80 CHR ''='', []]"
    unfolding d0 d1 d2 d3 .
  with a(1) show ?thesis
    by (simp add: format_log_entry_def)
qed

text \<open>
  Claim C8. The formatter reads nothing but its argument: for every batch it returns one
  text, and every call of \<^verbatim>\<open>save_tracking_data\<close> appends that same text and a line
  break, whatever the log file holds already. The text is not empty; it ends with the
  closing rule of 80 equals signs and a line break, so its last line is blank.
\<close>

theorem formatter_output_shape:
  "\<exists>ls text pre.
     log_lines (log_entry_of t s u (JArr (map JObj ds))) = Inr ls \<and>
     format_log_entry (log_entry_of t s u (JArr (map JObj ds))) = Inr text \<and>
     text = join [nl] ls \<and> text \<noteq> [] \<and>
     last ls = [] \<and> last (split_lines text) = [] \<and>
     text = pre @ nl # replicate 80 CHR ''='' @ [nl] \<and>
     (\<forall>file. save_tracking_data True (log_entry_of t s u (JArr (map JObj ds))) file
               = file @ text @ [nl]) \<and>
     (\<forall>file. save_tracking_data False (log_entry_of t s u (JArr (map JObj ds))) file = file)"
proof -
  from log_lines_batch [of ds t s u] obtain mid where
    ls: "log_lines (log_entry_of t s u (JArr (map JObj ds))) =
       Inr ([replicate 80 CHR ''='', ''BATCH_TIMESTAMP: '' @ t, ''SESSION_ID: '' @ py_str s,
             ''USER_ID: '' @ py_str u, ''TOTAL_EVENTS: '' @ show_nat (length ds),
             replicate 40 CHR ''-''] @ mid @ [replicate 80 CHR ''='', []])"
    by blast
  define rest where "rest = [''BATCH_TIMESTAMP: '' @ t, ''SESSION_ID: '' @ py_str s,
             ''USER_ID: '' @ py_str u, ''TOTAL_EVENTS: '' @ show_nat (length ds),
             replicate 40 CHR ''-''] @ mid"
  define lines where "lines = replicate 80 CHR ''='' # rest @ [replicate 80 CHR ''='', []]"
  define out where "out = join [nl] lines"
  define pre where "pre = join [nl] (replicate 80 CHR ''='' # rest)"
  from ls have l: "log_lines (log_entry_of t s u (JArr (map JObj ds))) = Inr lines"
    by (simp add: lines_def rest_def)
  then have f: "format_log_entry (log_entry_of t s u (JArr (map JObj ds))) = Inr out"
    by (simp add: format_log_entry_def out_def)
  have shape: "out = pre @ nl # replicate 80 CHR ''='' @ [nl]"
    unfolding out_def lines_def pre_def by (rule join_closing)
  have "split_lines out = split_lines (pre @ nl # replicate 80 CHR ''='') @ split_lines []"
    using split_lines_break [of "pre @ nl # replicate 80 CHR ''=''" "[]"]
    by (simp add: shape)
  then have blank: "last (split_lines out) = []" by simp
  have lastl: "last lines = []" by (simp add: lines_def)
  from shape have ne: "out \<noteq> []" by simp
  from f have sv: "save_tracking_data True (log_entry_of t s u (JArr (map JObj ds))) fl
      = fl @ out @ [nl]"
    and sv': "save_tracking_data False (log_entry_of t s u (JArr (map JObj ds))) fl = fl"
    for fl
    by (simp_all add: save_tracking_data_def)
  from l f shape blank lastl ne sv sv' show ?thesis
    unfolding out_def [symmetric]
    by (intro exI [of _ lines] exI [of _ out] exI [of _ pre]) (simp add: out_def)
qed

text \<open>The batch without events.\<close>

theorem formatter_output_shape_witness:
  "(case format_log_entry (log_entry_of ''2024-01-01T00:00:00'' (JStr ''s1'') (JStr ''u1'')
            (JArr [])) of
      Inl e \<Rightarrow> False
    | Inr out \<Rightarrow> out \<noteq> [] \<and> last out = nl \<and>
        save_tracking_data True (log_entry_of ''2024-01-01T00:00:00'' (JStr ''s1'') (JStr ''u1'')
            (JArr [])) ''old'' = ''old'' @ out @ [nl])"
  using formatter_output_shape [of "''2024-01-01T00:00:00''" "JStr ''s1''" "JStr ''u1''" "[]"]
  by auto

text \<open>
  Claim C9. On the analytics routes a request without a \<^verbatim>\<open>Content-Length\<close> header, or
  with one that is not an integer, makes \<^verbatim>\<open>do_POST\<close> raise before the \<^verbatim>\<open>try\<close> block:
  the exception leaves the handler, no reply is sent by it and the log file is left as it
  was.
\<close>

theorem bad_content_length_raises:
  assumes "path req = ''/api/analytics/events'' \<or> path req = ''/analytics''"
      and "content_length req = NoHeader \<or> content_length req = NotInteger"
  shows "do_POST e req file =
           (Raised (if content_length req = NoHeader then TypeError else ValueError), file)"
  using assms by (auto simp: do_POST_def)

text \<open>One request without the header and one with a malformed header.\<close>

theorem bad_content_length_raises_witness:
  "do_POST \<lparr>now = ''2024-01-01T00:00:00'', disk_ok = True\<rparr>
      \<lparr>path = ''/analytics'', content_length = NoHeader, body = Json (JObj [(''type'', JStr ''click'')])\<rparr>
      ''old''
     = (Raised TypeError, ''old'') \<and>
   do_POST \<lparr>now = ''2024-01-01T00:00:00'', disk_ok = True\<rparr>
      \<lparr>path = ''/api/analytics/events'', content_length = NotInteger,
       body = Json (JObj [(''type'', JStr ''click'')])\<rparr>
      ''old''
     = (Raised ValueError, ''old'')"
  using bad_content_length_raises
    [of "\<lparr>path = ''/analytics'', content_length = NoHeader,
          body = Json (JObj [(''type'', JStr ''click'')])\<rparr>"
        "\<lparr>now = ''2024-01-01T00:00:00'', disk_ok = True\<rparr>" "''old''"]
    bad_content_length_raises
    [of "\<lparr>path = ''/api/analytics/events'', content_length = NotInteger,
          body = Json (JObj [(''type'', JStr ''click'')])\<rparr>"
        "\<lparr>now = ''2024-01-01T00:00:00'', disk_ok = True\<rparr>" "''old''"]
  by simp

text \<open>
  Claim C10. In a batch submission whose first event is an object without a
  \<^verbatim>\<open>sessionId\<close> (respectively \<^verbatim>\<open>userId\<close>) field, the batch's id is \<^verbatim>\<open>None\<close>, not the
  string \<^verbatim>\<open>'unknown'\<close>. Every text the formatter returns for that batch begins with the
  rule, the timestamp line, \<^verbatim>\<open>SESSION_ID: None\<close> (respectively \<^verbatim>\<open>USER_ID: None\<close>); the
  formatter does return when the other events are objects too, and then \<^verbatim>\<open>do_POST\<close>
  appends a block that begins so to the log file.
\<close>

theorem missing_id_is_None:
  assumes "map_of kvs ''events'' = Some (JArr (JObj first # rest))"
  shows "\<exists>sid uid.
     normalize (JObj kvs) = Inr (JArr (JObj first # rest), sid, uid) \<and>
     (map_of first ''sessionId'' = None \<longrightarrow> sid = JNull \<and> sid \<noteq> JStr ''unknown'') \<and>
     (map_of first ''userId'' = None \<longrightarrow> uid = JNull \<and> uid \<noteq> JStr ''unknown'') \<and>
     (\<forall>t out. format_log_entry (log_entry_of t sid uid (JArr (JObj first # rest))) = Inr out \<longrightarrow>
        (\<exists>tail. out = replicate 80 CHR ''='' @ nl # ''BATCH_TIMESTAMP: '' @ t
            @ nl # ''SESSION_ID: '' @ (if map_of first ''sessionId'' = None then ''None'' else py_str sid)
            @ nl # ''USER_ID: '' @ (if map_of first ''userId'' = None then ''None'' else py_str uid)
            @ nl # tail)) \<and>
     (\<forall>ds e req n file. rest = map JObj ds \<and>
        (path req = ''/api/analytics/events'' \<or> path req = ''/analytics'') \<and>
        content_length req = Length n \<and> body req = Json (JObj kvs) \<and> disk_ok e \<longrightarrow>
        (\<exists>tail. snd (do_POST e req file) =
            file @ replicate 80 CHR ''='' @ nl # ''BATCH_TIMESTAMP: '' @ now e
            @ nl # ''SESSION_ID: '' @ (if map_of first ''sessionId'' = None then ''None'' else py_str sid)
            @ nl # ''USER_ID: '' @ (if map_of first ''userId'' = None then ''None'' else py_str uid)
            @ nl # tail))"
proof -
  define sid where "sid = dict_get first ''sessionId'' JNull"
  define uid where "uid = dict_get first ''userId'' JNull"
  from assms have n: "normalize (JObj kvs) = Inr (JArr (JObj first # rest), sid, uid)"
    by (simp add: normalize_def has_key_iff first_field_def dict_get_def sid_def uid_def)
  have s: "map_of first ''sessionId'' = None \<longrightarrow> sid = JNull \<and> sid \<noteq> JStr ''unknown''"
    and u: "map_of first ''userId'' = None \<longrightarrow> uid = JNull \<and> uid \<noteq> JStr ''unknown''"
    by (simp_all add: sid_def uid_def dict_get_def)
  have idt: "(if map_of first ''sessionId'' = None then ''None'' else py_str sid) = py_str sid"
    "(if map_of first ''userId'' = None then ''None'' else py_str uid) = py_str uid"
    using s u by auto
  have f: "\<exists>tail. out = replicate 80 CHR ''='' @ nl # ''BATCH_TIMESTAMP: '' @ t
            @ nl # ''SESSION_ID: '' @ py_str sid @ nl # ''USER_ID: '' @ py_str uid @ nl # tail"
    if "format_log_entry (log_entry_of t sid uid (JArr (JObj first # rest))) = Inr out" for t out
    using format_head [OF that] .
  have d: "\<exists>tail. snd (do_POST e req fl) =
            fl @ replicate 80 CHR ''='' @ nl # ''BATCH_TIMESTAMP: '' @ now e
            @ nl # ''SESSION_ID: '' @ py_str sid @ nl # ''USER_ID: '' @ py_str uid @ nl # tail"
    if "rest = map JObj ds \<and>
        (path req = ''/api/analytics/events'' \<or> path req = ''/analytics'') \<and>
        content_length req = Length m \<and> body req = Json (JObj kvs) \<and> disk_ok e"
    for ds e req m fl
  proof -
    from that have r: "JArr (JObj first # rest) = JArr (map JObj (first # ds))" by simp
    from log_lines_batch [of "first # ds" "now e" sid uid] obtain out where
      o: "format_log_entry (log_entry_of (now e) sid uid (JArr (JObj first # rest))) = Inr out"
      unfolding r by (auto simp: format_log_entry_def)
    from format_head [OF o] obtain tail where
      t: "out = replicate 80 CHR ''='' @ nl # ''BATCH_TIMESTAMP: '' @ now e
            @ nl # ''SESSION_ID: '' @ py_str sid @ nl # ''USER_ID: '' @ py_str uid @ nl # tail"
      by blast
    from that n o have "snd (do_POST e req fl) = fl @ out @ [nl]"
      by (simp add: do_POST_def process_def save_tracking_data_def split: sum.splits prod.splits)
    with t show ?thesis by simp
  qed
  from f have F: "\<forall>t out. format_log_entry (log_entry_of t sid uid (JArr (JObj first # rest))) = Inr out \<longrightarrow>
        (\<exists>tail. out = replicate 80 CHR ''='' @ nl # ''BATCH_TIMESTAMP: '' @ t
            @ nl # ''SESSION_ID: '' @ py_str sid @ nl # ''USER_ID: '' @ py_str uid @ nl # tail)"
    by blast
  from d have D: "\<forall>ds e req n file. rest = map JObj ds \<and>
        (path req = ''/api/analytics/events'' \<or> path req = ''/analytics'') \<and>
        content_length req = Length n \<and> body req = Json (JObj kvs) \<and> disk_ok e \<longrightarrow>
        (\<exists>tail. snd (do_POST e req file) =
            file @ replicate 80 CHR ''='' @ nl # ''BATCH_TIMESTAMP: '' @ now e
            @ nl # ''SESSION_ID: '' @ py_str sid @ nl # ''USER_ID: '' @ py_str uid @ nl # tail)"
    by blast
  show ?thesis
  proof (rule exI [of _ sid], rule exI [of _ uid], intro conjI)
    show "normalize (JObj kvs) = Inr (JArr (JObj first # rest), sid, uid)" by (rule n)
    show "map_of first ''sessionId'' = None \<longrightarrow> sid = JNull \<and> sid \<noteq> JStr ''unknown''" by (rule s)
    show "map_of first ''userId'' = None \<longrightarrow> uid = JNull \<and> uid \<noteq> JStr ''unknown''" by (rule u)
    show "\<forall>t out. format_log_entry (log_entry_of t sid uid (JArr (JObj first # rest))) = Inr out \<longrightarrow>
        (\<exists>tail. out = replicate 80 CHR ''='' @ nl # ''BATCH_TIMESTAMP: '' @ t
            @ nl # ''SESSION_ID: '' @ (if map_of first ''sessionId'' = None then ''None'' else py_str sid) @ nl # ''USER_ID: '' @ (if map_of first ''userId'' = None then ''None'' else py_str uid) @ nl # tail)"
      unfolding idt by (rule F)
    show "\<forall>ds e req n file. rest = map JObj ds \<and>
        (path req = ''/api/analytics/events'' \<or> path req = ''/analytics'') \<and>
        content_length req = Length n \<and> body req = Json (JObj kvs) \<and> disk_ok e \<longrightarrow>
        (\<exists>tail. snd (do_POST e req file) =
            file @ replicate 80 CHR ''='' @ nl # ''BATCH_TIMESTAMP: '' @ now e
            @ nl # ''SESSION_ID: '' @ (if map_of first ''sessionId'' = None then ''None'' else py_str sid) @ nl # ''USER_ID: '' @ (if map_of first ''userId'' = None then ''None'' else py_str uid) @ nl # tail)"
      unfolding idt by (rule D)
  qed
qed

text \<open>A batch of one event that has neither id, posted to the server.\<close>

theorem missing_id_is_None_witness:
  "normalize (JObj [(''events'', JArr [JObj [(''eventType'', JStr ''click'')]])])
     = Inr (JArr [JObj [(''eventType'', JStr ''click'')]], JNull, JNull) \<and>
   take 152 (snd (do_POST \<lparr>now = ''2024-01-01T00:00:00'', disk_ok = True\<rparr>
       \<lparr>path = ''/analytics'', content_length = Length 37,
        body = Json (JObj [(''events'', JArr [JObj [(''eventType'', JStr ''click'')]])])\<rparr>
       ''old''))
     = ''old'' @ replicate 80 CHR ''='' @ [CHR 0x0A] @ ''BATCH_TIMESTAMP: 2024-01-01T00:00:00''
         @ [CHR 0x0A] @ ''SESSION_ID: None'' @ [CHR 0x0A] @ ''USER_ID: None'' @ [CHR 0x0A]"
proof -
  let ?f = "[(''eventType'', JStr ''click'')]"
  let ?kvs = "[(''events'', JArr [JObj ?f])]"
  let ?e = "\<lparr>now = ''2024-01-01T00:00:00'', disk_ok = True\<rparr>"
  let ?r = "\<lparr>path = ''/analytics'', content_length = Length 37, body = Json (JObj ?kvs)\<rparr>"
  from missing_id_is_None [of ?kvs ?f "[]"] obtain sid uid where
    n: "normalize (JObj ?kvs) = Inr (JArr [JObj ?f], sid, uid)"
    and ids: "sid = JNull" "uid = JNull"
    and d: "\<forall>ds e req n file. [] = map JObj ds \<and>
        (path req = ''/api/analytics/events'' \<or> path req = ''/analytics'') \<and>
        content_length req = Length n \<and> body req = Json (JObj ?kvs) \<and> disk_ok e \<longrightarrow>
        (\<exists>tail. snd (do_POST e req file) =
            file @ replicate 80 CHR ''='' @ nl # ''BATCH_TIMESTAMP: '' @ now e
            @ nl # ''SESSION_ID: '' @ (if map_of ?f ''sessionId'' = None then ''None'' else py_str sid)
            @ nl # ''USER_ID: '' @ (if map_of ?f ''userId'' = None then ''None'' else py_str uid)
            @ nl # tail)"
    by auto
  define P where "P = ''old'' @ replicate 80 CHR ''='' @ [CHR 0x0A]
         @ ''BATCH_TIMESTAMP: 2024-01-01T00:00:00''
         @ [CHR 0x0A] @ ''SESSION_ID: None'' @ [CHR 0x0A] @ ''USER_ID: None'' @ [CHR 0x0A]"
  from d [rule_format, of "[]" ?r 37 ?e "''old''"] obtain tail where
    "snd (do_POST ?e ?r ''old'') = P @ tail"
    by (auto simp: nl_def P_def)
  moreover have "length P = 152"
    by (simp add: P_def)
  ultimately have "take 152 (snd (do_POST ?e ?r ''old'')) = P"
    by simp
  with n ids show ?thesis by (simp add: P_def)
qed

end
